theory Spec2Isabelle
  imports Complex_Main "HOL-Library.Sublist" "HOL-Library.Multiset"
begin

section \<open>Values and exceptions\<close>

text \<open>
  The program is one Python module, \<^verbatim>\<open>main.py\<close>: a ledger of downloaded videos kept
  in a JSON file, an in-memory progress table, a format lister, a download worker and
  the HTTP handlers in front of them. The extraction engine (yt-dlp), the JSON codec,
  pydantic, the file system and the web framework are collaborators: what they return
  or raise is a parameter of the model (the record \<open>env\<close> below) or a part of its state
  (the ledger file as it is read). Requests and downloads are run one after another.

  Python strings are modelled as \<open>string\<close>. An exception is a value of \<open>exn\<close>; every
  handler of the module is \<^verbatim>\<open>except Exception as e\<close> and reads nothing of \<open>e\<close> but
  \<^verbatim>\<open>str(e)\<close>, which is the collaborator \<open>str_e\<close>: the wording of the interpreter's
  own messages is not fixed by the module.
\<close>

datatype exn =
    LibraryError string
  | AttributeError
  | TypeError
  | ValueError
  | UnicodeEncodeError
  | IndexError
  | KeyError string
  | OverflowError
  | ZeroDivisionError

text \<open>
  A Python \<^verbatim>\<open>float\<close> is a binary64 number: a finite one is the rational it denotes
  (the two zeros, equal in Python, are one value), the others are the infinities and
  NaN.
\<close>

datatype pyfloat = Finite rat | PosInf | NegInf | NaN

text \<open>
  The scalar values the engine's dictionaries hold: \<^verbatim>\<open>None\<close>, an \<^verbatim>\<open>int\<close> (a
  \<^verbatim>\<open>bool\<close> is the int 0 or 1 for every operation used here), a \<^verbatim>\<open>float\<close>, a
  \<^verbatim>\<open>str\<close>. A dictionary with string keys is an association list in insertion order.
\<close>

datatype pyval = PNone | PInt int | PFloat pyfloat | PStr string

type_synonym pydict = "(string \<times> pyval) list"

text \<open>\<^verbatim>\<open>d.get(k)\<close> and \<^verbatim>\<open>d.get(k, default)\<close>.\<close>

definition get :: "pydict \<Rightarrow> string \<Rightarrow> pyval" where
  "get d k = (case map_of d k of None \<Rightarrow> PNone | Some v \<Rightarrow> v)"

definition get_default :: "pydict \<Rightarrow> string \<Rightarrow> pyval \<Rightarrow> pyval" where
  "get_default d k dflt = (case map_of d k of None \<Rightarrow> dflt | Some v \<Rightarrow> v)"

text \<open>\<^verbatim>\<open>d[k]\<close>, which raises \<^verbatim>\<open>KeyError\<close> on a missing key.\<close>

definition getitem :: "pydict \<Rightarrow> string \<Rightarrow> exn + pyval" where
  "getitem d k = (case map_of d k of None \<Rightarrow> Inl (KeyError k) | Some v \<Rightarrow> Inr v)"

section \<open>The ledger of downloaded videos\<close>

text \<open>\<^verbatim>\<open>class VideoInfo(BaseModel)\<close>; the field \<^verbatim>\<open>id\<close> is \<open>id'\<close> here.\<close>

record VideoInfo =
  id' :: string
  title :: string
  duration :: int
  author :: string
  description :: string
  file_size :: string
  file_path :: string
  thumbnail :: string
  download_date :: string

text \<open>
  The values \<^verbatim>\<open>json.load\<close> returns, as far as the ledger reads them. The ledger is a
  JSON array; an element of it is an object, read as a \<^verbatim>\<open>dict\<close> with string keys
  (an association list, looked up from the left), or something else; the value of a
  key is \<^verbatim>\<open>None\<close>, a \<^verbatim>\<open>bool\<close>, an \<^verbatim>\<open>int\<close>, a \<^verbatim>\<open>float\<close>, a \<^verbatim>\<open>str\<close>, or a list
  or object in its turn.
\<close>

datatype jval = JNull | JBool bool | JInt int | JFloat pyfloat | JStr string | JNested

datatype jitem = JObject "(string \<times> jval) list" | JOther

text \<open>
  The ledger file \<^verbatim>\<open>videos_info.json\<close> as \<^verbatim>\<open>load_videos_info\<close> finds it: missing;
  there, but opening it or \<^verbatim>\<open>json.load\<close> raises, or what is loaded cannot be iterated
  (\<open>Unreadable\<close>, with the exception); or holding the text of a JSON array with the
  given elements. The file system and the text of JSON are collaborators: \<^verbatim>\<open>exists()\<close>
  answers, the file can be opened, the disk takes what is written, and the text that
  \<^verbatim>\<open>json.dumps\<close> makes of a list is read back by \<^verbatim>\<open>json.load\<close> as that list. Where
  dumping, writing and loading raise because of the values themselves (an \<^verbatim>\<open>int\<close> of
  too many digits, a \<^verbatim>\<open>str\<close> that UTF-8 cannot encode) is modelled below.
\<close>

datatype ledger_file = Missing | Unreadable exn | Stored "jitem list"

section \<open>The engine, the state and the collaborators\<close>

text \<open>
  What the engine hands over: the metadata of a video (\<^verbatim>\<open>info\<close>), whose \<^verbatim>\<open>id\<close> is a
  string when present and whose \<^verbatim>\<open>formats\<close> is a list of dictionaries when present,
  and the dictionary \<^verbatim>\<open>d\<close> it passes to a progress hook.
\<close>

record info =
  info_id :: "string option"
  info_fields :: pydict
  info_formats :: "pydict list option"

record tick =
  info_dict :: "info option"
  tick_fields :: pydict

text \<open>
  The options the module passes to the engine, as far as they vary: the \<^verbatim>\<open>format\<close>
  selector, \<^verbatim>\<open>skip_download\<close>, \<^verbatim>\<open>socket_timeout\<close>, \<^verbatim>\<open>retries\<close> and
  \<^verbatim>\<open>proxy\<close>.
\<close>

record ydl_opts =
  opt_format :: "string option"
  opt_skip_download :: bool
  opt_socket_timeout :: "nat option"
  opt_retries :: "nat option"
  opt_proxy :: "string option"

text \<open>
  The state the module reads and writes: the global \<^verbatim>\<open>download_progress\<close>, the ledger
  file, what was printed, the background tasks enqueued (the arguments of
  \<^verbatim>\<open>download_video\<close>) and the calls made to the engine's \<^verbatim>\<open>extract_info\<close>
  (options, URL, \<^verbatim>\<open>download\<close> flag).
\<close>

record state =
  download_progress :: "string \<rightharpoonup> pydict"
  VIDEOS_INFO_FILE :: ledger_file
  stdout :: "string list"
  background_tasks :: "(string \<times> string option) list"
  engine_calls :: "(ydl_opts \<times> string \<times> bool) list"

text \<open>
  The collaborators. \<open>str_e\<close> is \<^verbatim>\<open>str(e)\<close>. \<open>extract_info\<close> is the engine's
  \<^verbatim>\<open>extract_info(url, download=False)\<close>: it raises or returns the metadata (or
  \<^verbatim>\<open>None\<close>). \<open>run_download\<close> is \<^verbatim>\<open>extract_info(url, download=True)\<close>: the ticks
  the engine passes to the progress hook, in order, and the exception it ends with, if
  any. \<open>environ\<close> is \<^verbatim>\<open>os.environ\<close>. \<open>make_video_info\<close> stands for lines 192 to 207
  of \<^verbatim>\<open>download_video\<close>, which format the file name, read the file's size and the
  clock and validate the record, and may raise. \<open>lax_int\<close> is pydantic's conversion to
  an \<^verbatim>\<open>int\<close> field of a JSON value that is not an int (a bool, a float without a
  fraction, a string of digits), or the exception it raises on it.
\<close>

record env =
  str_e :: "exn \<Rightarrow> string"
  extract_info :: "ydl_opts \<Rightarrow> string \<Rightarrow> exn + info option"
  run_download :: "ydl_opts \<Rightarrow> string \<Rightarrow> tick list \<times> exn option"
  environ :: "string \<rightharpoonup> string"
  make_video_info :: "info \<Rightarrow> exn + VideoInfo"
  lax_int :: "jval \<Rightarrow> exn + int"

section \<open>Python's string operations\<close>

text \<open>
  A \<open>string\<close> stands for the UTF-8 bytes of a Python string; the patterns the module
  searches for and splits on are ASCII. Running one raising step after another:
\<close>

definition then_do :: "exn + 'a \<Rightarrow> ('a \<Rightarrow> exn + 'b) \<Rightarrow> exn + 'b" where
  "then_do r f = (case r of Inl e \<Rightarrow> Inl e | Inr x \<Rightarrow> f x)"

text \<open>\<^verbatim>\<open>sub in s\<close>: \<open>sub\<close> occurs in \<open>s\<close> as a contiguous run.\<close>

fun substring_in :: "string \<Rightarrow> string \<Rightarrow> bool" where
  "substring_in sub [] = (sub = [])"
| "substring_in sub (c # cs) = (prefix sub (c # cs) \<or> substring_in sub cs)"

text \<open>
  \<^verbatim>\<open>s.split(sep)\<close>: the pieces of \<open>s\<close> between the occurrences of \<open>sep\<close>, found from
  the left and not overlapping; \<^verbatim>\<open>ValueError\<close> on the empty separator.
\<close>

fun pieces :: "string \<Rightarrow> string \<Rightarrow> string list" where
  "pieces sep [] = [[]]"
| "pieces sep (c # cs) =
     (if sep \<noteq> [] \<and> prefix sep (c # cs)
      then [] # pieces sep (drop (length sep) (c # cs))
      else (case pieces sep cs of [] \<Rightarrow> [[c]] | p # ps \<Rightarrow> (c # p) # ps))"

declare pieces.simps(2) [simp del]

definition split :: "string \<Rightarrow> string \<Rightarrow> exn + string list" where
  "split sep s = (if sep = [] then Inl ValueError else Inr (pieces sep s))"

text \<open>\<^verbatim>\<open>xs[i]\<close>: a negative index counts from the end; \<^verbatim>\<open>IndexError\<close> out of range.\<close>

definition index :: "'a list \<Rightarrow> int \<Rightarrow> exn + 'a" where
  "index xs i =
     (if 0 \<le> i \<and> i < int (length xs) then Inr (xs ! nat i)
      else if i < 0 \<and> - int (length xs) \<le> i then Inr (xs ! nat (int (length xs) + i))
      else Inl IndexError)"

text \<open>\<^verbatim>\<open>s.rstrip(chars)\<close>: \<open>s\<close> without its trailing characters that are in \<open>chars\<close>.\<close>

definition rstrip :: "string \<Rightarrow> string \<Rightarrow> string" where
  "rstrip chars s = rev (dropWhile (\<lambda>c. c \<in> set chars) (rev s))"

text \<open>
  \<^verbatim>\<open>s.lower()\<close> on the ASCII letters. (Python also lowers the letters outside ASCII;
  the bytes of those are left as they are here.)
\<close>

definition lower_char :: "char \<Rightarrow> char" where
  "lower_char c =
     (if 65 \<le> (of_char c :: nat) \<and> (of_char c :: nat) \<le> 90
      then char_of ((of_char c :: nat) + 32) else c)"

definition lower :: "string \<Rightarrow> string" where
  "lower s = map lower_char s"

text \<open>
  \<^verbatim>\<open>int(s)\<close> on an ASCII string: optional white space, an optional sign, decimal
  digits with single underscores allowed between them, optional white space. CPython
  3.11 and later refuse a literal of more than 4300 digits. (Python also reads the
  decimal digits and spaces outside ASCII; a byte above 127 is an invalid character
  here.)
\<close>

definition is_space :: "char \<Rightarrow> bool" where
  "is_space c = (c \<in> set [CHR 0x20, CHR 0x09, CHR 0x0A, CHR 0x0B, CHR 0x0C, CHR 0x0D])"

definition is_digit :: "char \<Rightarrow> bool" where
  "is_digit c = (c \<in> set ''0123456789'')"

definition digit_value :: "char \<Rightarrow> nat" where
  "digit_value c = (of_char c :: nat) - 48"

fun digits_ok :: "string \<Rightarrow> bool" where
  "digits_ok [] = False"
| "digits_ok [c] = is_digit c"
| "digits_ok (c # d # cs) =
     (is_digit c \<and> (if d = CHR ''_'' then digits_ok cs else digits_ok (d # cs)))"

definition decimal :: "string \<Rightarrow> nat" where
  "decimal ds = foldl (\<lambda>n c. 10 * n + digit_value c) 0 ds"

text \<open>A non-empty string of decimal digits, as a width or a height is written.\<close>

definition digit_string :: "string \<Rightarrow> bool" where
  "digit_string s = (s \<noteq> [] \<and> list_all is_digit s)"

definition int_max_str_digits :: nat where
  "int_max_str_digits = 4300"

definition py_int :: "string \<Rightarrow> exn + int" where
  "py_int s =
     (let t = dropWhile is_space s;
          negative = (t \<noteq> [] \<and> hd t = CHR ''-'');
          u = (if t \<noteq> [] \<and> (hd t = CHR ''-'' \<or> hd t = CHR ''+'') then tl t else t);
          body = rev (dropWhile is_space (rev u));
          ds = filter (\<lambda>c. c \<noteq> CHR ''_'') body
      in if digits_ok body \<and> length ds \<le> int_max_str_digits
         then Inr (if negative then - int (decimal ds) else int (decimal ds))
         else Inl ValueError)"

section \<open>Python's numbers\<close>

text \<open>
  Rounding a rational to binary64, to nearest and ties to even: 53 significant bits,
  the least exponent of a unit in the last place \<open>-1074\<close> (gradual underflow), and an
  infinity when the rounded magnitude reaches \<open>2 ^ 1024\<close>.
\<close>

fun bit_length :: "nat \<Rightarrow> nat" where
  "bit_length n = (if n = 0 then 0 else Suc (bit_length (n div 2)))"

declare bit_length.simps [simp del]

definition pow2 :: "int \<Rightarrow> rat" where
  "pow2 k = (if 0 \<le> k then 2 ^ nat k else 1 / 2 ^ nat (- k))"

text \<open>For \<open>0 < x\<close>, the \<open>k\<close> with \<open>2 ^ k \<le> x < 2 ^ (k + 1)\<close>.\<close>

definition floor_log2 :: "rat \<Rightarrow> int" where
  "floor_log2 x =
     (if 1 \<le> x then int (bit_length (nat \<lfloor>x\<rfloor>)) - 1
      else - int (bit_length (nat (\<lceil>1 / x\<rceil> - 1))))"

definition round_half_even :: "rat \<Rightarrow> int" where
  "round_half_even x =
     (let n = \<lfloor>x\<rfloor>; r = x - of_int n
      in if r < 1 / 2 then n else if 1 / 2 < r then n + 1
         else if even n then n else n + 1)"

definition to_binary64 :: "rat \<Rightarrow> pyfloat" where
  "to_binary64 x =
     (if x = 0 then Finite 0
      else
        (let e = max (floor_log2 \<bar>x\<bar> - 52) (- 1074);
             m = round_half_even (\<bar>x\<bar> / pow2 e);
             y = of_int m * pow2 e
         in if pow2 1024 \<le> y then (if 0 < x then PosInf else NegInf)
            else Finite (if 0 < x then y else - y)))"

text \<open>Where CPython raises \<^verbatim>\<open>OverflowError\<close> instead of returning an infinity.\<close>

definition finite_or_overflow :: "pyfloat \<Rightarrow> exn + pyfloat" where
  "finite_or_overflow x = (case x of Finite r \<Rightarrow> Inr (Finite r) | _ \<Rightarrow> Inl OverflowError)"

definition is_number :: "pyval \<Rightarrow> bool" where
  "is_number v = (case v of PInt _ \<Rightarrow> True | PFloat _ \<Rightarrow> True | _ \<Rightarrow> False)"

text \<open>The conversion of an operand to \<^verbatim>\<open>float\<close> in mixed arithmetic.\<close>

definition as_float :: "pyval \<Rightarrow> exn + pyfloat" where
  "as_float v =
     (case v of
        PInt i \<Rightarrow> finite_or_overflow (to_binary64 (of_int i))
      | PFloat x \<Rightarrow> Inr x
      | _ \<Rightarrow> Inl TypeError)"

definition float_sign :: "pyfloat \<Rightarrow> int" where
  "float_sign x =
     (case x of Finite r \<Rightarrow> (if 0 < r then 1 else if r < 0 then - 1 else 0)
      | PosInf \<Rightarrow> 1 | NegInf \<Rightarrow> - 1 | NaN \<Rightarrow> 0)"

definition signed_inf :: "int \<Rightarrow> pyfloat" where
  "signed_inf sg = (if 0 < sg then PosInf else NegInf)"

text \<open>\<^verbatim>\<open>x / y\<close> on two floats.\<close>

definition float_div :: "pyfloat \<Rightarrow> pyfloat \<Rightarrow> exn + pyfloat" where
  "float_div x y =
     (if y = Finite 0 then Inl ZeroDivisionError
      else if x = NaN \<or> y = NaN then Inr NaN
      else
        (case (x, y) of
           (Finite a, Finite b) \<Rightarrow> Inr (to_binary64 (a / b))
         | (Finite a, _) \<Rightarrow> Inr (Finite 0)
         | (_, Finite b) \<Rightarrow> Inr (signed_inf (float_sign x * float_sign y))
         | (_, _) \<Rightarrow> Inr NaN))"

text \<open>
  \<^verbatim>\<open>a / b\<close>: the quotient of two ints is rounded once, and too large a quotient
  raises; any other pair of numbers is divided as floats.
\<close>

definition truediv :: "pyval \<Rightarrow> pyval \<Rightarrow> exn + pyfloat" where
  "truediv a b =
     (case (a, b) of
        (PInt i, PInt j) \<Rightarrow>
          (if j = 0 then Inl ZeroDivisionError
           else finite_or_overflow (to_binary64 (of_int i / of_int j)))
      | _ \<Rightarrow>
          (if is_number a \<and> is_number b
           then then_do (as_float a) (\<lambda>x. then_do (as_float b) (\<lambda>y. float_div x y))
           else Inl TypeError))"

text \<open>\<^verbatim>\<open>x * y\<close> on two floats.\<close>

definition float_mul :: "pyfloat \<Rightarrow> pyfloat \<Rightarrow> pyfloat" where
  "float_mul x y =
     (if x = NaN \<or> y = NaN then NaN
      else
        (case (x, y) of
           (Finite a, Finite b) \<Rightarrow> to_binary64 (a * b)
         | (_, _) \<Rightarrow>
             (if float_sign x * float_sign y = 0 then NaN
              else signed_inf (float_sign x * float_sign y))))"

text \<open>
  \<^verbatim>\<open>round(x, 2)\<close> on a float: the exact value of \<open>x\<close> rounded to two decimals, ties
  to even, and the result rounded to binary64; an infinity or NaN is returned as it is.
\<close>

definition round_2 :: "pyfloat \<Rightarrow> exn + pyfloat" where
  "round_2 x =
     (case x of
        Finite r \<Rightarrow> finite_or_overflow (to_binary64 (of_int (round_half_even (r * 100)) / 100))
      | _ \<Rightarrow> Inr x)"

text \<open>The truth value of a scalar, and \<^verbatim>\<open>a or b\<close>.\<close>

definition truthy :: "pyval \<Rightarrow> bool" where
  "truthy v =
     (case v of
        PNone \<Rightarrow> False
      | PInt i \<Rightarrow> i \<noteq> 0
      | PFloat x \<Rightarrow> x \<noteq> Finite 0
      | PStr s \<Rightarrow> s \<noteq> [])"

definition py_or :: "pyval \<Rightarrow> pyval \<Rightarrow> pyval" where
  "py_or a b = (if truthy a then a else b)"

text \<open>\<^verbatim>\<open>v > 0\<close>: a comparison of numbers; \<^verbatim>\<open>TypeError\<close> on \<^verbatim>\<open>None\<close> or a string.\<close>

definition greater_than_0 :: "pyval \<Rightarrow> exn + bool" where
  "greater_than_0 v =
     (case v of
        PInt i \<Rightarrow> Inr (0 < i)
      | PFloat x \<Rightarrow> Inr (0 < float_sign x)
      | _ \<Rightarrow> Inl TypeError)"

section \<open>Reading and writing the ledger\<close>

text \<open>
  CPython 3.11 and later convert no \<^verbatim>\<open>int\<close> of more than 4300 digits to or from a
  decimal string: \<^verbatim>\<open>json.dumps\<close> and \<^verbatim>\<open>json.load\<close> raise \<^verbatim>\<open>ValueError\<close> on one.
\<close>

definition int_too_long :: "int \<Rightarrow> bool" where
  "int_too_long i = (10 ^ int_max_str_digits \<le> \<bar>i\<bar>)"

definition has_long_int :: "jitem \<Rightarrow> bool" where
  "has_long_int item =
     (case item of
        JObject obj \<Rightarrow>
          list_ex (\<lambda>kv. case snd kv of JInt i \<Rightarrow> int_too_long i | _ \<Rightarrow> False) obj
      | JOther \<Rightarrow> False)"

text \<open>
  \<^verbatim>\<open>json.dumps\<close> on a list of dictionaries of scalars, which is what line 75 passes;
  the text it returns is identified with the list.
\<close>

definition json_dumps :: "jitem list \<Rightarrow> exn + jitem list" where
  "json_dumps items = (if list_ex has_long_int items then Inl ValueError else Inr items)"

text \<open>
  A \<^verbatim>\<open>str\<close> is modelled by the bytes of its UTF-8 encoding. A \<^verbatim>\<open>str\<close> may hold a
  lone surrogate (U+D800 to U+DFFF; \<^verbatim>\<open>json.load\<close> returns one for the escape
  \<^verbatim>\<open>\ud800\<close>), which the codec of a file opened with \<^verbatim>\<open>encoding="utf-8"\<close> refuses;
  it is modelled by the three bytes that the scheme of UTF-8 gives it, the first \<^verbatim>\<open>ED\<close>
  and the second from \<^verbatim>\<open>A0\<close> to \<^verbatim>\<open>BF\<close>, which no other character has.
\<close>

fun has_surrogate :: "string \<Rightarrow> bool" where
  "has_surrogate (a # b # cs) =
     ((of_char a = (237::nat) \<and> (160::nat) \<le> of_char b \<and> of_char b \<le> (191::nat))
      \<or> has_surrogate (b # cs))"
| "has_surrogate cs = False"

definition has_surrogate_item :: "jitem \<Rightarrow> bool" where
  "has_surrogate_item item =
     (case item of
        JObject obj \<Rightarrow>
          list_ex (\<lambda>kv. has_surrogate (fst kv)
                     \<or> (case snd kv of JStr s \<Rightarrow> has_surrogate s | _ \<Rightarrow> False)) obj
      | JOther \<Rightarrow> False)"

text \<open>
  \<^verbatim>\<open>f.write(text)\<close> on the file opened by line 74, which is empty by then: the text is
  encoded first, which raises \<^verbatim>\<open>UnicodeEncodeError\<close> with nothing written, and written
  then. The result is the file as it is left.
\<close>

definition write_text :: "jitem list \<Rightarrow> exn + ledger_file" where
  "write_text text =
     (if list_ex has_surrogate_item text then Inl UnicodeEncodeError else Inr (Stored text))"

text \<open>
  Opening the file and \<^verbatim>\<open>json.load\<close> (lines 60 and 61). A file without text, as
  \<^verbatim>\<open>open(..., "w")\<close> leaves it, is not JSON.
\<close>

definition empty_file :: ledger_file where
  "empty_file = Unreadable (LibraryError ''JSONDecodeError'')"

definition json_load :: "ledger_file \<Rightarrow> exn + jitem list" where
  "json_load f =
     (case f of
        Missing \<Rightarrow> Inl (LibraryError ''FileNotFoundError'')
      | Unreadable e \<Rightarrow> Inl e
      | Stored items \<Rightarrow> (if list_ex has_long_int items then Inl ValueError else Inr items))"

text \<open>The \<^verbatim>\<open>str\<close> fields of a record.\<close>

definition text_fields :: "VideoInfo \<Rightarrow> string list" where
  "text_fields v =
     [id' v, title v, author v, description v, file_size v, file_path v, thumbnail v,
      download_date v]"

text \<open>\<^verbatim>\<open>v.model_dump()\<close>: the fields of the record, in the order of the class.\<close>

definition model_dump :: "VideoInfo \<Rightarrow> (string \<times> jval) list" where
  "model_dump v =
     [(''id'', JStr (id' v)), (''title'', JStr (title v)), (''duration'', JInt (duration v)),
      (''author'', JStr (author v)), (''description'', JStr (description v)),
      (''file_size'', JStr (file_size v)), (''file_path'', JStr (file_path v)),
      (''thumbnail'', JStr (thumbnail v)), (''download_date'', JStr (download_date v))]"

text \<open>
  \<^verbatim>\<open>VideoInfo(**item)\<close>: \<^verbatim>\<open>TypeError\<close> when \<open>item\<close> is not a mapping; else pydantic
  validates the nine fields, all required, and ignores other keys. A \<^verbatim>\<open>str\<close> field
  takes a string only. The \<^verbatim>\<open>int\<close> field takes an int; what pydantic makes of another
  value there (it converts some) is the collaborator \<open>lax_int\<close>.
\<close>

definition validation_error :: exn where
  "validation_error = LibraryError ''ValidationError''"

definition str_field :: "(string \<times> jval) list \<Rightarrow> string \<Rightarrow> exn + string" where
  "str_field obj k =
     (case map_of obj k of
        Some (JStr s) \<Rightarrow> Inr s
      | _ \<Rightarrow> Inl validation_error)"

definition int_field :: "env \<Rightarrow> (string \<times> jval) list \<Rightarrow> string \<Rightarrow> exn + int" where
  "int_field ev obj k =
     (case map_of obj k of
        None \<Rightarrow> Inl validation_error
      | Some (JInt i) \<Rightarrow> Inr i
      | Some v \<Rightarrow> (case lax_int ev v of Inl e \<Rightarrow> Inl validation_error | Inr i \<Rightarrow> Inr i))"

definition validate :: "env \<Rightarrow> jitem \<Rightarrow> exn + VideoInfo" where
  "validate ev item =
     (case item of
        JOther \<Rightarrow> Inl TypeError
      | JObject obj \<Rightarrow>
          then_do (str_field obj ''id'') (\<lambda>a.
          then_do (str_field obj ''title'') (\<lambda>b.
          then_do (int_field ev obj ''duration'') (\<lambda>c.
          then_do (str_field obj ''author'') (\<lambda>d.
          then_do (str_field obj ''description'') (\<lambda>e.
          then_do (str_field obj ''file_size'') (\<lambda>f.
          then_do (str_field obj ''file_path'') (\<lambda>g.
          then_do (str_field obj ''thumbnail'') (\<lambda>h.
          then_do (str_field obj ''download_date'') (\<lambda>i.
            Inr \<lparr>id' = a, title = b, duration = c, author = d, description = e,
                 file_size = f, file_path = g, thumbnail = h,
                 download_date = i\<rparr>))))))))))"

text \<open>\<^verbatim>\<open>[VideoInfo(**item) for item in data]\<close> (line 62): the first exception is raised.\<close>

fun validate_all :: "env \<Rightarrow> jitem list \<Rightarrow> exn + VideoInfo list" where
  "validate_all ev [] = Inr []"
| "validate_all ev (item # items) =
     then_do (validate ev item) (\<lambda>v. then_do (validate_all ev items) (\<lambda>vs. Inr (v # vs)))"

text \<open>The body of the \<^verbatim>\<open>try\<close> block of \<^verbatim>\<open>load_videos_info\<close> (lines 60 to 62).\<close>

definition read_ledger :: "env \<Rightarrow> ledger_file \<Rightarrow> exn + VideoInfo list" where
  "read_ledger ev f = then_do (json_load f) (validate_all ev)"

text \<open>
  \<^verbatim>\<open>load_videos_info\<close> (lines 56 to 65). The result is \<open>Inl e\<close> if the function raises
  \<open>e\<close> to its caller and \<open>Inr videos\<close> if it returns \<open>videos\<close>.
\<close>

definition load_videos_info :: "env \<Rightarrow> state \<Rightarrow> (exn + VideoInfo list) \<times> state" where
  "load_videos_info ev s =
     (if VIDEOS_INFO_FILE s = Missing then (Inr [], s)
      else
        (case read_ledger ev (VIDEOS_INFO_FILE s) of
           Inr videos \<Rightarrow> (Inr videos, s)
         | Inl e \<Rightarrow>
             (Inr [], s\<lparr>stdout := stdout s @ [''Error loading videos info: '' @ str_e ev e]\<rparr>)))"

text \<open>
  \<^verbatim>\<open>save_video_info\<close> (lines 68 to 75): load, drop the records with the new record's
  id, append it; then line 74 opens the file for writing, which empties it, and line
  75 dumps the records and writes the text; if dumping or writing raises, the function
  raises with the file left empty.
\<close>

definition save_video_info :: "env \<Rightarrow> VideoInfo \<Rightarrow> state \<Rightarrow> (exn + unit) \<times> state" where
  "save_video_info ev video_info s =
     (case load_videos_info ev s of
        (Inl e, s1) \<Rightarrow> (Inl e, s1)
      | (Inr videos, s1) \<Rightarrow>
          (let videos1 = filter (\<lambda>v. id' v \<noteq> id' video_info) videos;
               videos2 = videos1 @ [video_info];
               s2 = s1\<lparr>VIDEOS_INFO_FILE := empty_file\<rparr>
           in case json_dumps (map (\<lambda>v. JObject (model_dump v)) videos2) of
                Inl e \<Rightarrow> (Inl e, s2)
              | Inr text \<Rightarrow>
                  (case write_text text of
                     Inl e \<Rightarrow> (Inl e, s2)
                   | Inr written \<Rightarrow> (Inr (), s2\<lparr>VIDEOS_INFO_FILE := written\<rparr>))))"

section \<open>The messages shown to the user\<close>

text \<open>The constant strings of the module that are not ASCII, as their UTF-8 bytes.\<close>

text \<open>The message of line 218: YouTube limits the request rate, try again later.\<close>

definition msg_rate_limited :: string where
  "msg_rate_limited =
     ''YouTube '' @ [CHR 0xE9, CHR 0x99, CHR 0x90, CHR 0xE5, CHR 0x88, CHR 0xB6,
     CHR 0xE4, CHR 0xBA, CHR 0x86, CHR 0xE8, CHR 0xAF, CHR 0xB7, CHR 0xE6, CHR 0xB1,
     CHR 0x82, CHR 0xE9, CHR 0x80, CHR 0x9F, CHR 0xE7, CHR 0x8E, CHR 0x87, CHR 0xEF,
     CHR 0xBC, CHR 0x8C, CHR 0xE8, CHR 0xAF, CHR 0xB7, CHR 0xE7, CHR 0xA8, CHR 0x8D,
     CHR 0xE5, CHR 0x90, CHR 0x8E, CHR 0xE5, CHR 0x86, CHR 0x8D, CHR 0xE8, CHR 0xAF,
     CHR 0x95, CHR 0xE3, CHR 0x80, CHR 0x82]"

text \<open>The message of line 220: the video cannot be accessed (region limit or login needed).\<close>

definition msg_access_denied :: string where
  "msg_access_denied =
     [CHR 0xE6, CHR 0x97, CHR 0xA0, CHR 0xE6, CHR 0xB3, CHR 0x95, CHR 0xE8, CHR 0xAE,
     CHR 0xBF, CHR 0xE9, CHR 0x97, CHR 0xAE, CHR 0xE6, CHR 0xAD, CHR 0xA4, CHR 0xE8,
     CHR 0xA7, CHR 0x86, CHR 0xE9, CHR 0xA2, CHR 0x91, CHR 0xEF, CHR 0xBC, CHR 0x8C,
     CHR 0xE5, CHR 0x8F, CHR 0xAF, CHR 0xE8, CHR 0x83, CHR 0xBD, CHR 0xE6, CHR 0x98,
     CHR 0xAF, CHR 0xE5, CHR 0x9C, CHR 0xB0, CHR 0xE5, CHR 0x8C, CHR 0xBA, CHR 0xE9,
     CHR 0x99, CHR 0x90, CHR 0xE5, CHR 0x88, CHR 0xB6, CHR 0xE6, CHR 0x88, CHR 0x96,
     CHR 0xE9, CHR 0x9C, CHR 0x80, CHR 0xE8, CHR 0xA6, CHR 0x81, CHR 0xE7, CHR 0x99,
     CHR 0xBB, CHR 0xE5, CHR 0xBD, CHR 0x95, CHR 0xE3, CHR 0x80, CHR 0x82]"

text \<open>The message of line 222: the video does not exist or was deleted.\<close>

definition msg_not_found :: string where
  "msg_not_found =
     [CHR 0xE8, CHR 0xA7, CHR 0x86, CHR 0xE9, CHR 0xA2, CHR 0x91, CHR 0xE4, CHR 0xB8,
     CHR 0x8D, CHR 0xE5, CHR 0xAD, CHR 0x98, CHR 0xE5, CHR 0x9C, CHR 0xA8, CHR 0xE6,
     CHR 0x88, CHR 0x96, CHR 0xE5, CHR 0xB7, CHR 0xB2, CHR 0xE8, CHR 0xA2, CHR 0xAB,
     CHR 0xE5, CHR 0x88, CHR 0xA0, CHR 0xE9, CHR 0x99, CHR 0xA4, CHR 0xE3, CHR 0x80,
     CHR 0x82]"

text \<open>The message of line 224: the connection timed out, with three suggestions.\<close>

definition msg_timeout :: string where
  "msg_timeout =
     [CHR 0xE7, CHR 0xBD, CHR 0x91, CHR 0xE7, CHR 0xBB, CHR 0x9C, CHR 0xE8, CHR 0xBF,
     CHR 0x9E, CHR 0xE6, CHR 0x8E, CHR 0xA5, CHR 0xE8, CHR 0xB6, CHR 0x85, CHR 0xE6,
     CHR 0x97, CHR 0xB6, CHR 0xEF, CHR 0xBC, CHR 0x8C, CHR 0xE5, CHR 0xBB, CHR 0xBA,
     CHR 0xE8, CHR 0xAE, CHR 0xAE, CHR 0xEF, CHR 0xBC, CHR 0x9A, CHR 0x0A] @ ''1. '' @
     [CHR 0xE6, CHR 0xA3, CHR 0x80, CHR 0xE6, CHR 0x9F, CHR 0xA5, CHR 0xE7, CHR 0xBD,
     CHR 0x91, CHR 0xE7, CHR 0xBB, CHR 0x9C, CHR 0xE8, CHR 0xBF, CHR 0x9E, CHR 0xE6,
     CHR 0x8E, CHR 0xA5, CHR 0x0A] @ ''2. '' @ [CHR 0xE5, CHR 0xB0, CHR 0x9D, CHR 0xE8,
     CHR 0xAF, CHR 0x95, CHR 0xE4, CHR 0xBD, CHR 0xBF, CHR 0xE7, CHR 0x94, CHR 0xA8,
     CHR 0xE4, CHR 0xBB, CHR 0xA3, CHR 0xE7, CHR 0x90, CHR 0x86, CHR 0xE6, CHR 0x9C,
     CHR 0x8D, CHR 0xE5, CHR 0x8A, CHR 0xA1, CHR 0xE5, CHR 0x99, CHR 0xA8, CHR 0x0A] @
     ''3. '' @ [CHR 0xE7, CHR 0xA8, CHR 0x8D, CHR 0xE5, CHR 0x90, CHR 0x8E, CHR 0xE9,
     CHR 0x87, CHR 0x8D, CHR 0xE8, CHR 0xAF, CHR 0x95]"

text \<open>The message of line 226: this video is unavailable (made private or deleted).\<close>

definition msg_unavailable_private :: string where
  "msg_unavailable_private =
     [CHR 0xE6, CHR 0xAD, CHR 0xA4, CHR 0xE8, CHR 0xA7, CHR 0x86, CHR 0xE9, CHR 0xA2,
     CHR 0x91, CHR 0xE4, CHR 0xB8, CHR 0x8D, CHR 0xE5, CHR 0x8F, CHR 0xAF, CHR 0xE7,
     CHR 0x94, CHR 0xA8, CHR 0xEF, CHR 0xBC, CHR 0x8C, CHR 0xE5, CHR 0x8F, CHR 0xAF,
     CHR 0xE8, CHR 0x83, CHR 0xBD, CHR 0xE5, CHR 0xB7, CHR 0xB2, CHR 0xE8, CHR 0xA2,
     CHR 0xAB, CHR 0xE8, CHR 0xAE, CHR 0xBE, CHR 0xE4, CHR 0xB8, CHR 0xBA, CHR 0xE7,
     CHR 0xA7, CHR 0x81, CHR 0xE6, CHR 0x9C, CHR 0x89, CHR 0xE6, CHR 0x88, CHR 0x96,
     CHR 0xE5, CHR 0x88, CHR 0xA0, CHR 0xE9, CHR 0x99, CHR 0xA4, CHR 0xE3, CHR 0x80,
     CHR 0x82]"

text \<open>The message of line 228: video unavailable (deleted by the uploader or made private).\<close>

definition msg_unavailable_deleted :: string where
  "msg_unavailable_deleted =
     [CHR 0xE8, CHR 0xA7, CHR 0x86, CHR 0xE9, CHR 0xA2, CHR 0x91, CHR 0xE4, CHR 0xB8,
     CHR 0x8D, CHR 0xE5, CHR 0x8F, CHR 0xAF, CHR 0xE7, CHR 0x94, CHR 0xA8, CHR 0xEF,
     CHR 0xBC, CHR 0x8C, CHR 0xE5, CHR 0x8F, CHR 0xAF, CHR 0xE8, CHR 0x83, CHR 0xBD,
     CHR 0xE5, CHR 0xB7, CHR 0xB2, CHR 0xE8, CHR 0xA2, CHR 0xAB, CHR 0xE4, CHR 0xB8,
     CHR 0x8A, CHR 0xE4, CHR 0xBC, CHR 0xA0, CHR 0xE8, CHR 0x80, CHR 0x85, CHR 0xE5,
     CHR 0x88, CHR 0xA0, CHR 0xE9, CHR 0x99, CHR 0xA4, CHR 0xE6, CHR 0x88, CHR 0x96,
     CHR 0xE8, CHR 0xAE, CHR 0xBE, CHR 0xE4, CHR 0xB8, CHR 0xBA, CHR 0xE7, CHR 0xA7,
     CHR 0x81, CHR 0xE6, CHR 0x9C, CHR 0x89, CHR 0xE3, CHR 0x80, CHR 0x82]"

text \<open>The message of line 230: this video needs a login.\<close>

definition msg_sign_in :: string where
  "msg_sign_in =
     [CHR 0xE6, CHR 0xAD, CHR 0xA4, CHR 0xE8, CHR 0xA7, CHR 0x86, CHR 0xE9, CHR 0xA2,
     CHR 0x91, CHR 0xE9, CHR 0x9C, CHR 0x80, CHR 0xE8, CHR 0xA6, CHR 0x81, CHR 0xE7,
     CHR 0x99, CHR 0xBB, CHR 0xE5, CHR 0xBD, CHR 0x95, CHR 0xE6, CHR 0x89, CHR 0x8D,
     CHR 0xE8, CHR 0x83, CHR 0xBD, CHR 0xE8, CHR 0xA7, CHR 0x82, CHR 0xE7, CHR 0x9C,
     CHR 0x8B, CHR 0xE3, CHR 0x80, CHR 0x82]"

text \<open>The message of line 232: the uploader has not made the video available in your country.\<close>

definition msg_not_in_country :: string where
  "msg_not_in_country =
     [CHR 0xE4, CHR 0xB8, CHR 0x8A, CHR 0xE4, CHR 0xBC, CHR 0xA0, CHR 0xE8, CHR 0x80,
     CHR 0x85, CHR 0xE6, CHR 0x9C, CHR 0xAA, CHR 0xE5, CHR 0x9C, CHR 0xA8, CHR 0xE6,
     CHR 0x82, CHR 0xA8, CHR 0xE7, CHR 0x9A, CHR 0x84, CHR 0xE5, CHR 0x9B, CHR 0xBD,
     CHR 0xE5, CHR 0xAE, CHR 0xB6] @ ''/'' @ [CHR 0xE5, CHR 0x9C, CHR 0xB0, CHR 0xE5,
     CHR 0x8C, CHR 0xBA, CHR 0xE6, CHR 0x8F, CHR 0x90, CHR 0xE4, CHR 0xBE, CHR 0x9B,
     CHR 0xE6, CHR 0xAD, CHR 0xA4, CHR 0xE8, CHR 0xA7, CHR 0x86, CHR 0xE9, CHR 0xA2,
     CHR 0x91, CHR 0xE3, CHR 0x80, CHR 0x82]"

text \<open>The message of line 234: the connection is unstable, with three suggestions.\<close>

definition msg_unstable :: string where
  "msg_unstable =
     [CHR 0xE7, CHR 0xBD, CHR 0x91, CHR 0xE7, CHR 0xBB, CHR 0x9C, CHR 0xE8, CHR 0xBF,
     CHR 0x9E, CHR 0xE6, CHR 0x8E, CHR 0xA5, CHR 0xE4, CHR 0xB8, CHR 0x8D, CHR 0xE7,
     CHR 0xA8, CHR 0xB3, CHR 0xE5, CHR 0xAE, CHR 0x9A, CHR 0xEF, CHR 0xBC, CHR 0x8C,
     CHR 0xE5, CHR 0xBB, CHR 0xBA, CHR 0xE8, CHR 0xAE, CHR 0xAE, CHR 0xEF, CHR 0xBC,
     CHR 0x9A, CHR 0x0A] @ ''1. '' @ [CHR 0xE6, CHR 0xA3, CHR 0x80, CHR 0xE6, CHR 0x9F,
     CHR 0xA5, CHR 0xE7, CHR 0xBD, CHR 0x91, CHR 0xE7, CHR 0xBB, CHR 0x9C, CHR 0xE8,
     CHR 0xBF, CHR 0x9E, CHR 0xE6, CHR 0x8E, CHR 0xA5, CHR 0x0A] @ ''2. '' @ [CHR 0xE5,
     CHR 0xB0, CHR 0x9D, CHR 0xE8, CHR 0xAF, CHR 0x95, CHR 0xE4, CHR 0xBD, CHR 0xBF,
     CHR 0xE7, CHR 0x94, CHR 0xA8, CHR 0xE4, CHR 0xBB, CHR 0xA3, CHR 0xE7, CHR 0x90,
     CHR 0x86, CHR 0xE6, CHR 0x9C, CHR 0x8D, CHR 0xE5, CHR 0x8A, CHR 0xA1, CHR 0xE5,
     CHR 0x99, CHR 0xA8, CHR 0x0A] @ ''3. '' @ [CHR 0xE7, CHR 0xA8, CHR 0x8D, CHR 0xE5,
     CHR 0x90, CHR 0x8E, CHR 0xE9, CHR 0x87, CHR 0x8D, CHR 0xE8, CHR 0xAF, CHR 0x95]"

text \<open>The message of line 236: DNS resolution failed, with three suggestions.\<close>

definition msg_dns :: string where
  "msg_dns =
     ''DNS'' @ [CHR 0xE8, CHR 0xA7, CHR 0xA3, CHR 0xE6, CHR 0x9E, CHR 0x90, CHR 0xE5,
     CHR 0xA4, CHR 0xB1, CHR 0xE8, CHR 0xB4, CHR 0xA5, CHR 0xEF, CHR 0xBC, CHR 0x8C,
     CHR 0xE5, CHR 0xBB, CHR 0xBA, CHR 0xE8, CHR 0xAE, CHR 0xAE, CHR 0xEF, CHR 0xBC,
     CHR 0x9A, CHR 0x0A] @ ''1. '' @ [CHR 0xE6, CHR 0xA3, CHR 0x80, CHR 0xE6, CHR 0x9F,
     CHR 0xA5, CHR 0xE7, CHR 0xBD, CHR 0x91, CHR 0xE7, CHR 0xBB, CHR 0x9C] @ ''DNS'' @
     [CHR 0xE8, CHR 0xAE, CHR 0xBE, CHR 0xE7, CHR 0xBD, CHR 0xAE, CHR 0x0A] @ ''2. '' @
     [CHR 0xE5, CHR 0xB0, CHR 0x9D, CHR 0xE8, CHR 0xAF, CHR 0x95, CHR 0xE4, CHR 0xBD,
     CHR 0xBF, CHR 0xE7, CHR 0x94, CHR 0xA8, CHR 0xE5, CHR 0x85, CHR 0xB6, CHR 0xE4,
     CHR 0xBB, CHR 0x96] @ ''DNS'' @ [CHR 0xE6, CHR 0x9C, CHR 0x8D, CHR 0xE5, CHR 0x8A,
     CHR 0xA1, CHR 0xE5, CHR 0x99, CHR 0xA8, CHR 0x0A] @ ''3. '' @ [CHR 0xE4, CHR 0xBD,
     CHR 0xBF, CHR 0xE7, CHR 0x94, CHR 0xA8, CHR 0xE4, CHR 0xBB, CHR 0xA3, CHR 0xE7,
     CHR 0x90, CHR 0x86, CHR 0xE6, CHR 0x9C, CHR 0x8D, CHR 0xE5, CHR 0x8A, CHR 0xA1,
     CHR 0xE5, CHR 0x99, CHR 0xA8]"

text \<open>The message of lines 260 and 274: please enter a valid YouTube video link.\<close>

definition msg_invalid_url :: string where
  "msg_invalid_url =
     [CHR 0xE8, CHR 0xAF, CHR 0xB7, CHR 0xE8, CHR 0xBE, CHR 0x93, CHR 0xE5, CHR 0x85,
     CHR 0xA5, CHR 0xE6, CHR 0x9C, CHR 0x89, CHR 0xE6, CHR 0x95, CHR 0x88, CHR 0xE7,
     CHR 0x9A, CHR 0x84] @ ''YouTube'' @ [CHR 0xE8, CHR 0xA7, CHR 0x86, CHR 0xE9,
     CHR 0xA2, CHR 0x91, CHR 0xE9, CHR 0x93, CHR 0xBE, CHR 0xE6, CHR 0x8E, CHR 0xA5]"

text \<open>The message of line 285: the video id cannot be recognised, check the link.\<close>

definition msg_unknown_id :: string where
  "msg_unknown_id =
     [CHR 0xE6, CHR 0x97, CHR 0xA0, CHR 0xE6, CHR 0xB3, CHR 0x95, CHR 0xE8, CHR 0xAF,
     CHR 0x86, CHR 0xE5, CHR 0x88, CHR 0xAB, CHR 0xE8, CHR 0xA7, CHR 0x86, CHR 0xE9,
     CHR 0xA2, CHR 0x91] @ ''ID'' @ [CHR 0xEF, CHR 0xBC, CHR 0x8C, CHR 0xE8, CHR 0xAF,
     CHR 0xB7, CHR 0xE6, CHR 0xA3, CHR 0x80, CHR 0xE6, CHR 0x9F, CHR 0xA5, CHR 0xE9,
     CHR 0x93, CHR 0xBE, CHR 0xE6, CHR 0x8E, CHR 0xA5, CHR 0xE6, CHR 0xA0, CHR 0xBC,
     CHR 0xE5, CHR 0xBC, CHR 0x8F]"

section \<open>The progress hook\<close>

text \<open>\<^verbatim>\<open>download_progress[video_id] = entry\<close>.\<close>

definition set_progress :: "string \<Rightarrow> pydict \<Rightarrow> state \<Rightarrow> state" where
  "set_progress video_id entry s =
     s\<lparr>download_progress := (download_progress s)(video_id \<mapsto> entry)\<rparr>"

text \<open>\<^verbatim>\<open>d.get('info_dict', {}).get('id', 'unknown')\<close> (line 79).\<close>

definition tick_video_id :: "tick \<Rightarrow> string" where
  "tick_video_id d =
     (case info_dict d of
        None \<Rightarrow> ''unknown''
      | Some i \<Rightarrow> (case info_id i of None \<Rightarrow> ''unknown'' | Some v \<Rightarrow> v))"

text \<open>\<^verbatim>\<open>downloaded\<close> and \<^verbatim>\<open>total\<close> of lines 82 and 83.\<close>

definition tick_downloaded :: "tick \<Rightarrow> pyval" where
  "tick_downloaded d = get_default (tick_fields d) ''downloaded_bytes'' (PInt 0)"

definition tick_total :: "tick \<Rightarrow> pyval" where
  "tick_total d =
     py_or (get (tick_fields d) ''total_bytes'')
       (get_default (tick_fields d) ''total_bytes_estimate'' (PInt 0))"

text \<open>\<^verbatim>\<open>round((downloaded / total) * 100, 2)\<close> of lines 86 and 88.\<close>

definition progress_percent :: "pyval \<Rightarrow> pyval \<Rightarrow> exn + pyfloat" where
  "progress_percent downloaded total_bytes =
     then_do (truediv downloaded total_bytes) (\<lambda>q. round_2 (float_mul q (Finite 100)))"

text \<open>
  \<^verbatim>\<open>progress_hook\<close> (lines 78 to 98). The result is \<open>Inl e\<close> when the hook raises \<open>e\<close>
  (to the engine that called it), with the state as it was at that point.
\<close>

definition progress_hook :: "tick \<Rightarrow> state \<Rightarrow> (exn + unit) \<times> state" where
  "progress_hook d s =
     (let video_id = tick_video_id d in
      case getitem (tick_fields d) ''status'' of
        Inl e \<Rightarrow> (Inl e, s)
      | Inr status \<Rightarrow>
          if status = PStr ''downloading'' then
            (let downloaded = tick_downloaded d;
                 total = tick_total d
             in case greater_than_0 total of
                  Inl e \<Rightarrow> (Inl e, s)
                | Inr False \<Rightarrow> (Inr (), s)
                | Inr True \<Rightarrow>
                    (case progress_percent downloaded total of
                       Inl e \<Rightarrow> (Inl e, s)
                     | Inr rounded \<Rightarrow>
                         (Inr (),
                          set_progress video_id
                            [(''progress'', PFloat rounded),
                             (''speed'', get_default (tick_fields d) ''speed'' (PInt 0)),
                             (''eta'', get_default (tick_fields d) ''eta'' (PInt 0)),
                             (''status'', PStr ''downloading'')] s)))
          else if status = PStr ''finished'' then
            (Inr (),
             set_progress video_id
               [(''progress'', PInt 100), (''status'', PStr ''finished'')] s)
          else (Inr (), s))"

text \<open>
  The engine calling the hook on one tick after another; a hook that raises ends the
  run with its exception.
\<close>

fun run_hooks :: "tick list \<Rightarrow> state \<Rightarrow> (exn + unit) \<times> state" where
  "run_hooks [] s = (Inr (), s)"
| "run_hooks (d # ds) s =
     (case progress_hook d s of
        (Inl e, s1) \<Rightarrow> (Inl e, s1)
      | (Inr u, s1) \<Rightarrow> run_hooks ds s1)"

section \<open>The format lister\<close>

text \<open>The test of line 118 and the dictionary of lines 119 to 127.\<close>

definition has_video :: "pydict \<Rightarrow> bool" where
  "has_video f = (get f ''vcodec'' \<noteq> PStr ''none'' \<and> get f ''resolution'' \<noteq> PStr ''audio only'')"

definition format_info :: "pydict \<Rightarrow> pydict" where
  "format_info f =
     [(''format_id'', get f ''format_id''),
      (''resolution'', get_default f ''resolution'' (PStr ''unknown'')),
      (''ext'', get_default f ''ext'' (PStr ''mp4'')),
      (''fps'', get_default f ''fps'' (PInt 0)),
      (''filesize'', get_default f ''filesize'' (PInt 0)),
      (''format_note'', get_default f ''format_note'' (PStr '''')),
      (''vcodec'', get_default f ''vcodec'' (PStr ''''))]"

text \<open>The loop of lines 115 to 128, \<open>formats\<close> being the list built so far.\<close>

fun collect_formats :: "pydict list \<Rightarrow> pydict list \<Rightarrow> pydict list" where
  "collect_formats formats [] = formats"
| "collect_formats formats (f # fs) =
     (if has_video f then collect_formats (formats @ [format_info f]) fs
      else collect_formats formats fs)"

text \<open>
  The sort key of lines 131 to 135, on a dictionary \<open>x\<close> of the list. \<^verbatim>\<open>'x' in r\<close>
  raises \<^verbatim>\<open>TypeError\<close> when \<open>r\<close> is not a string.
\<close>

definition resolution_key :: "pydict \<Rightarrow> exn + int" where
  "resolution_key x =
     then_do (getitem x ''resolution'') (\<lambda>r.
       if r = PStr ''unknown'' then Inr 0
       else
         (case r of
            PStr label \<Rightarrow>
              if substring_in ''x'' label
              then then_do (split ''x'' label) (\<lambda>parts. then_do (index parts 1) py_int)
              else py_int (rstrip ''p'' label)
          | _ \<Rightarrow> Inl TypeError))"

text \<open>The keys of a list, computed from the left; the first exception is raised.\<close>

fun keys_of :: "('a \<Rightarrow> exn + int) \<Rightarrow> 'a list \<Rightarrow> exn + int list" where
  "keys_of key [] = Inr []"
| "keys_of key (x # xs) =
     then_do (key x) (\<lambda>k. then_do (keys_of key xs) (\<lambda>ks. Inr (k # ks)))"

text \<open>
  \<^verbatim>\<open>xs.sort(key=key, reverse=True)\<close>: Python computes every key first, then sorts
  stably by decreasing key (elements of equal keys keep their order).
\<close>

definition sort_reverse :: "('a \<Rightarrow> exn + int) \<Rightarrow> 'a list \<Rightarrow> exn + 'a list" where
  "sort_reverse key xs =
     then_do (keys_of key xs) (\<lambda>ks. Inr (map snd (sort_key (\<lambda>p. - fst p) (zip ks xs))))"

text \<open>What \<^verbatim>\<open>get_video_formats\<close> returns: the listing, or \<^verbatim>\<open>{'error': str(e)}\<close>.\<close>

datatype formats_result =
    Listing (listing_id: string) (listing_title: pyval) (listing_formats: "pydict list")
  | Failed string

definition call_engine :: "ydl_opts \<Rightarrow> string \<Rightarrow> bool \<Rightarrow> state \<Rightarrow> state" where
  "call_engine opts url dl s = s\<lparr>engine_calls := engine_calls s @ [(opts, url, dl)]\<rparr>"

text \<open>\<^verbatim>\<open>info.get('formats', [])\<close> (line 116) and the options of lines 102 to 106.\<close>

definition info_candidates :: "info \<Rightarrow> pydict list" where
  "info_candidates i = (case info_formats i of None \<Rightarrow> [] | Some fs \<Rightarrow> fs)"

definition formats_opts :: ydl_opts where
  "formats_opts =
     \<lparr>opt_format = None, opt_skip_download = True, opt_socket_timeout = None,
      opt_retries = None, opt_proxy = None\<rparr>"

text \<open>The \<^verbatim>\<open>try\<close> block of \<^verbatim>\<open>get_video_formats\<close> (lines 111 to 141).\<close>

definition list_formats :: "env \<Rightarrow> string \<Rightarrow> exn + formats_result" where
  "list_formats ev url =
     then_do (extract_info ev formats_opts url) (\<lambda>found.
       case found of
         None \<Rightarrow> Inl AttributeError
       | Some i \<Rightarrow>
           then_do (sort_reverse resolution_key (collect_formats [] (info_candidates i)))
             (\<lambda>formats.
                Inr (Listing (case info_id i of None \<Rightarrow> ''unknown'' | Some v \<Rightarrow> v)
                       (get_default (info_fields i) ''title'' (PStr ''Unknown''))
                       formats)))"

text \<open>\<^verbatim>\<open>get_video_formats\<close> (lines 101 to 144).\<close>

definition get_video_formats :: "env \<Rightarrow> string \<Rightarrow> state \<Rightarrow> formats_result \<times> state" where
  "get_video_formats ev url s =
     (let s1 = call_engine formats_opts url False s
      in case list_formats ev url of
           Inr result \<Rightarrow> (result, s1)
         | Inl e \<Rightarrow>
             (Failed (str_e ev e),
              s1\<lparr>stdout := stdout s1 @ [''Error getting video formats: '' @ str_e ev e]\<rparr>))"

section \<open>The download worker\<close>

text \<open>The chain of lines 217 to 236 on \<^verbatim>\<open>error_message = str(e)\<close>.\<close>

definition friendly_message :: "string \<Rightarrow> string" where
  "friendly_message error_message =
     (if substring_in ''HTTP Error 429'' error_message then msg_rate_limited
      else if substring_in ''HTTP Error 403'' error_message then msg_access_denied
      else if substring_in ''HTTP Error 404'' error_message then msg_not_found
      else if substring_in ''Unable to download API page'' error_message
              \<or> substring_in ''timed out'' (lower error_message)
              \<or> substring_in ''WinError 10060'' error_message then msg_timeout
      else if substring_in ''This video is unavailable'' error_message
        then msg_unavailable_private
      else if substring_in ''Video unavailable'' error_message then msg_unavailable_deleted
      else if substring_in ''Sign in'' error_message then msg_sign_in
      else if substring_in ''The uploader has not made this video available'' error_message
        then msg_not_in_country
      else if substring_in ''socket'' (lower error_message)
              \<or> substring_in ''network'' (lower error_message) then msg_unstable
      else if substring_in ''DNS'' error_message then msg_dns
      else error_message)"

text \<open>\<^verbatim>\<open>url.split("v=")[-1].split("&")[0]\<close> (lines 213 and 278).\<close>

definition id_after_v :: "string \<Rightarrow> exn + string" where
  "id_after_v url =
     then_do (split ''v='' url) (\<lambda>a. then_do (index a (- 1)) (\<lambda>b.
       then_do (split ''&'' b) (\<lambda>c. index c 0)))"

text \<open>\<^verbatim>\<open>url.split("/")[-1].split("?")[0]\<close> (line 280).\<close>

definition id_after_slash :: "string \<Rightarrow> exn + string" where
  "id_after_slash url =
     then_do (split ''/'' url) (\<lambda>a. then_do (index a (- 1)) (\<lambda>b.
       then_do (split ''?'' b) (\<lambda>c. index c 0)))"

text \<open>The identifier the \<^verbatim>\<open>except\<close> block of \<^verbatim>\<open>download_video\<close> computes (line 213).\<close>

definition worker_video_id :: "string \<Rightarrow> exn + string" where
  "worker_video_id url = (if substring_in ''v='' url then id_after_v url else Inr ''unknown'')"

text \<open>
  The options of lines 149 to 168: \<^verbatim>\<open>format_id if format_id else 'best'\<close>, and the
  proxy of \<^verbatim>\<open>HTTP_PROXY\<close> or \<^verbatim>\<open>HTTPS_PROXY\<close> with its longer timeout.
\<close>

definition env_proxy :: "env \<Rightarrow> string option" where
  "env_proxy ev =
     (case environ ev ''HTTP_PROXY'' of
        Some p \<Rightarrow> (if p \<noteq> [] then Some p else environ ev ''HTTPS_PROXY'')
      | None \<Rightarrow> environ ev ''HTTPS_PROXY'')"

definition download_opts :: "env \<Rightarrow> string option \<Rightarrow> ydl_opts" where
  "download_opts ev format_id =
     (let opts = \<lparr>opt_format =
                     Some (case format_id of None \<Rightarrow> ''best''
                           | Some f \<Rightarrow> (if f \<noteq> [] then f else ''best'')),
                  opt_skip_download = False, opt_socket_timeout = Some 60,
                  opt_retries = Some 10, opt_proxy = None\<rparr>
      in case env_proxy ev of
           None \<Rightarrow> opts
         | Some p \<Rightarrow>
             (if p \<noteq> [] then opts\<lparr>opt_socket_timeout := Some 120, opt_proxy := Some p\<rparr>
              else opts))"

text \<open>
  The \<^verbatim>\<open>try\<close> block of \<^verbatim>\<open>download_video\<close> (lines 177 to 210): it returns the record
  saved, or raises with the state as it was when the exception was raised.
\<close>

definition download_video_try ::
  "env \<Rightarrow> string \<Rightarrow> string option \<Rightarrow> state \<Rightarrow> (exn + VideoInfo) \<times> state" where
  "download_video_try ev url format_id s =
     (let opts = download_opts ev format_id;
          info_opts = opts\<lparr>opt_skip_download := True\<rparr>;
          s1 = call_engine info_opts url False s
      in case extract_info ev info_opts url of
           Inl e \<Rightarrow> (Inl e, s1)
         | Inr None \<Rightarrow> (Inl AttributeError, s1)
         | Inr (Some i) \<Rightarrow>
             (let video_id = (case info_id i of None \<Rightarrow> ''unknown'' | Some v \<Rightarrow> v);
                  s2 = set_progress video_id
                         [(''progress'', PInt 0), (''status'', PStr ''starting'')] s1;
                  s3 = call_engine opts url True s2
              in case run_hooks (fst (run_download ev opts url)) s3 of
                   (Inl e, s4) \<Rightarrow> (Inl e, s4)
                 | (Inr u, s4) \<Rightarrow>
                     (case snd (run_download ev opts url) of
                        Some e \<Rightarrow> (Inl e, s4)
                      | None \<Rightarrow>
                          (case make_video_info ev i of
                             Inl e \<Rightarrow> (Inl e, s4)
                           | Inr video_info \<Rightarrow>
                               (case save_video_info ev video_info s4 of
                                  (Inl e, s5) \<Rightarrow> (Inl e, s5)
                                | (Inr u, s5) \<Rightarrow> (Inr video_info, s5))))))"

text \<open>
  The \<^verbatim>\<open>except\<close> block of \<^verbatim>\<open>download_video\<close> (lines 212 to 245), entered with the
  exception \<open>e\<close>.
\<close>

definition download_video_except ::
  "env \<Rightarrow> string \<Rightarrow> exn \<Rightarrow> state \<Rightarrow> (exn + VideoInfo option) \<times> state" where
  "download_video_except ev url e s =
     (case worker_video_id url of
        Inl e1 \<Rightarrow> (Inl e1, s)
      | Inr video_id \<Rightarrow>
          (let error_message = friendly_message (str_e ev e);
               s1 = set_progress video_id
                      [(''progress'', PInt 0), (''status'', PStr ''error''),
                       (''error'', PStr error_message),
                       (''original_error'', PStr (str_e ev e))] s
           in (Inr None,
               s1\<lparr>stdout := stdout s1 @ [''Error downloading video: '' @ str_e ev e]\<rparr>)))"

text \<open>\<^verbatim>\<open>download_video\<close> (lines 147 to 245).\<close>

definition download_video ::
  "env \<Rightarrow> string \<Rightarrow> string option \<Rightarrow> state \<Rightarrow> (exn + VideoInfo option) \<times> state" where
  "download_video ev url format_id s =
     (case download_video_try ev url format_id s of
        (Inr video_info, s1) \<Rightarrow> (Inr (Some video_info), s1)
      | (Inl e, s1) \<Rightarrow> download_video_except ev url e s1)"

section \<open>The request handlers\<close>

text \<open>The JSON bodies the two handlers return.\<close>

datatype response =
    Status_error string
  | Status_success_formats formats_result
  | Status_success_download string string

text \<open>The test of lines 259 and 273, negated: the URL is accepted.\<close>

definition valid_url :: "string \<Rightarrow> bool" where
  "valid_url url =
     (url \<noteq> [] \<and> (substring_in ''youtube.com'' url \<or> substring_in ''youtu.be'' url))"

text \<open>\<^verbatim>\<open>get_formats\<close>, the handler of \<^verbatim>\<open>GET /video-formats/\<close> (lines 256 to 268).\<close>

definition get_formats :: "env \<Rightarrow> string \<Rightarrow> state \<Rightarrow> response \<times> state" where
  "get_formats ev url s =
     (if \<not> valid_url url then (Status_error msg_invalid_url, s)
      else
        (case get_video_formats ev url s of
           (Failed message, s1) \<Rightarrow> (Status_error message, s1)
         | (formats_info, s1) \<Rightarrow> (Status_success_formats formats_info, s1)))"

text \<open>The identifier the handler of \<^verbatim>\<open>POST /download/\<close> reads off the URL (lines 277 to 282).\<close>

definition handler_video_id :: "string \<Rightarrow> exn + string" where
  "handler_video_id url =
     (if substring_in ''youtube.com'' url \<and> substring_in ''v='' url then id_after_v url
      else if substring_in ''youtu.be'' url then id_after_slash url
      else Inr ''unknown'')"

text \<open>\<^verbatim>\<open>download\<close>, the handler of \<^verbatim>\<open>POST /download/\<close> (lines 270 to 296).\<close>

definition download :: "string \<Rightarrow> string option \<Rightarrow> state \<Rightarrow> (exn + response) \<times> state" where
  "download url format_id s =
     (if \<not> valid_url url then (Inr (Status_error msg_invalid_url), s)
      else
        (case handler_video_id url of
           Inl e \<Rightarrow> (Inl e, s)
         | Inr video_id \<Rightarrow>
             if video_id = ''unknown'' then (Inr (Status_error msg_unknown_id), s)
             else
               (Inr (Status_success_download ''Download started'' video_id),
                (set_progress video_id
                   [(''progress'', PInt 0), (''status'', PStr ''queued'')] s)
                \<lparr>background_tasks := background_tasks s @ [(url, format_id)]\<rparr>)))"

text \<open>\<^verbatim>\<open>get_progress\<close>, the handler of \<^verbatim>\<open>GET /progress/{video_id}\<close> (lines 298 to 302).\<close>

definition get_progress :: "string \<Rightarrow> state \<Rightarrow> pydict" where
  "get_progress video_id s =
     (case download_progress s video_id of
        Some entry \<Rightarrow> entry
      | None \<Rightarrow> [(''status'', PStr ''not_found'')])"

section \<open>Example data\<close>

text \<open>A collaborator record and a state to evaluate the functions on.\<close>

definition example_env :: env where
  "example_env =
     \<lparr>str_e = (\<lambda>e. case e of LibraryError m \<Rightarrow> m | _ \<Rightarrow> ''error''),
      extract_info = (\<lambda>opts url. Inl (LibraryError ''ERROR: HTTP Error 429: DNS'')),
      run_download = (\<lambda>opts url. ([], None)),
      environ = Map.empty,
      make_video_info = (\<lambda>i. Inl (KeyError ''title'')),
      lax_int = (\<lambda>v. case v of JBool b \<Rightarrow> Inr (if b then 1 else 0)
                       | _ \<Rightarrow> Inl (LibraryError ''ValidationError''))\<rparr>"

text \<open>
  A record of the ledger, one whose duration has 4301 digits, and one of another id.
\<close>

definition example_video :: VideoInfo where
  "example_video =
     \<lparr>id' = ''ABC123'', title = ''A video'', duration = 212, author = ''Somebody'',
      description = ''About it'', file_size = ''12.34 MB'',
      file_path = ''/downloads/A video-ABC123.mp4'', thumbnail = ''https://i.ytimg.com/x.jpg'',
      download_date = ''2024-05-01 12:00:00''\<rparr>"

definition example_long_video :: VideoInfo where
  "example_long_video = example_video\<lparr>duration := 10 ^ int_max_str_digits\<rparr>"

definition example_other_video :: VideoInfo where
  "example_other_video = example_video\<lparr>id' := ''XYZ789'', duration := - 5\<rparr>"

text \<open>A record whose title is the lone surrogate U+D83D.\<close>

definition example_surrogate_video :: VideoInfo where
  "example_surrogate_video =
     example_video\<lparr>title := [char_of (237::nat), char_of (160::nat), char_of (189::nat)]\<rparr>"


text \<open>
  An engine that knows one video, \<^verbatim>\<open>ABC123\<close>, whose formats are video formats with the
  given resolution labels, numbered from the left by their \<^verbatim>\<open>format_id\<close>.
\<close>

definition example_formats :: "string list \<Rightarrow> pydict list" where
  "example_formats labels =
     map (\<lambda>(n, label).
            [(''format_id'', PInt (int n)), (''vcodec'', PStr ''avc1''),
             (''resolution'', PStr label)])
       (enumerate 0 labels)"

text \<open>The dictionary the loop of lines 115 to 128 makes of the \<open>n\<close>-th of these formats.\<close>

definition example_kept :: "nat \<Rightarrow> string \<Rightarrow> pydict" where
  "example_kept n label =
     [(''format_id'', PInt (int n)), (''resolution'', PStr label), (''ext'', PStr ''mp4''),
      (''fps'', PInt 0), (''filesize'', PInt 0), (''format_note'', PStr []),
      (''vcodec'', PStr ''avc1'')]"

definition example_listing_env :: "string list \<Rightarrow> env" where
  "example_listing_env labels =
     example_env\<lparr>extract_info := (\<lambda>opts url.
        Inr (Some \<lparr>info_id = Some ''ABC123'', info_fields = [(''title'', PStr ''A video'')],
                   info_formats = Some (example_formats labels)\<rparr>))\<rparr>"

definition empty_state :: state where
  "empty_state =
     \<lparr>download_progress = Map.empty, VIDEOS_INFO_FILE = Missing, stdout = [],
      background_tasks = [], engine_calls = []\<rparr>"

section \<open>The ledger: properties\<close>

text \<open>What \<^verbatim>\<open>model_dump\<close> writes, \<^verbatim>\<open>VideoInfo(**item)\<close> reads back.\<close>

lemma validate_model_dump: "validate ev (JObject (model_dump v)) = Inr v"
  by (simp add: validate_def model_dump_def str_field_def int_field_def then_do_def)

lemma validate_all_model_dump:
  "validate_all ev (map (\<lambda>v. JObject (model_dump v)) vs) = Inr vs"
  by (induction vs) (simp_all add: validate_model_dump then_do_def)

lemma has_long_int_model_dump:
  "has_long_int (JObject (model_dump v)) = int_too_long (duration v)"
  by (simp add: has_long_int_def model_dump_def)

lemma json_dumps_model_dump:
  "json_dumps (map (\<lambda>v. JObject (model_dump v)) vs) =
     (if list_ex (\<lambda>v. int_too_long (duration v)) vs then Inl ValueError
      else Inr (map (\<lambda>v. JObject (model_dump v)) vs))"
  by (simp add: json_dumps_def list_ex_iff has_long_int_model_dump)

lemma read_ledger_model_dump:
  "read_ledger ev (Stored (map (\<lambda>v. JObject (model_dump v)) vs)) =
     (if list_ex (\<lambda>v. int_too_long (duration v)) vs then Inl ValueError else Inr vs)"
  by (simp add: read_ledger_def json_load_def then_do_def list_ex_iff has_long_int_model_dump
      validate_all_model_dump)

lemma load_videos_info_returns: "\<exists>videos. fst (load_videos_info ev s) = Inr videos"
  by (simp add: load_videos_info_def split: sum.split)

text \<open>What \<^verbatim>\<open>VideoInfo(**item)\<close> returns has the duration of the item, or a converted one.\<close>

lemma validate_duration:
  assumes "validate ev item = Inr v"
  shows "(\<exists>obj. item = JObject obj \<and> map_of obj ''duration'' = Some (JInt (duration v)))
    \<or> (\<exists>x. lax_int ev x = Inr (duration v))"
proof (cases item)
  case JOther
  with assms show ?thesis by (simp add: validate_def)
next
  case (JObject obj)
  with assms obtain c where c: "int_field ev obj ''duration'' = Inr c" and d: "duration v = c"
    by (auto simp: validate_def then_do_def split: sum.splits)
  from c d JObject show ?thesis
    by (auto simp: int_field_def split: option.splits jval.splits sum.splits)
qed

lemma validate_all_durations:
  assumes "validate_all ev items = Inr vs"
    and "\<not> list_ex has_long_int items"
    and "\<forall>x i. lax_int ev x = Inr i \<longrightarrow> \<not> int_too_long i"
  shows "\<not> list_ex (\<lambda>v. int_too_long (duration v)) vs"
  using assms(1,2)
proof (induction items arbitrary: vs)
  case Nil
  then show ?case by simp
next
  case (Cons item items)
  from Cons.prems(1) obtain v vs' where v: "validate ev item = Inr v"
    and r: "validate_all ev items = Inr vs'" and vs: "vs = v # vs'"
    by (auto simp: then_do_def split: sum.splits)
  from Cons.prems(2) have n: "\<not> has_long_int item" "\<not> list_ex has_long_int items" by simp_all
  have "\<not> int_too_long (duration v)"
    using validate_duration [OF v]
  proof
    assume "\<exists>obj. item = JObject obj \<and> map_of obj ''duration'' = Some (JInt (duration v))"
    then obtain obj where f: "item = JObject obj"
      and m: "map_of obj ''duration'' = Some (JInt (duration v))" by blast
    from m have "(''duration'', JInt (duration v)) \<in> set obj" by (rule map_of_SomeD)
    with n(1) f show ?thesis
      by (auto simp: has_long_int_def list_ex_iff)
  next
    assume "\<exists>x. lax_int ev x = Inr (duration v)"
    with assms(3) show ?thesis by blast
  qed
  with Cons.IH [OF r n(2)] vs show ?case by simp
qed

lemma loaded_durations:
  assumes "fst (load_videos_info ev s) = Inr videos"
    and "\<forall>x i. lax_int ev x = Inr i \<longrightarrow> \<not> int_too_long i"
  shows "\<not> list_ex (\<lambda>v. int_too_long (duration v)) videos"
proof (cases "VIDEOS_INFO_FILE s")
  case Missing
  with assms(1) show ?thesis by (simp add: load_videos_info_def)
next
  case (Unreadable e)
  with assms(1) show ?thesis
    by (simp add: load_videos_info_def read_ledger_def json_load_def then_do_def)
next
  case (Stored items)
  show ?thesis
  proof (cases "read_ledger ev (Stored items)")
    case (Inl e)
    with assms(1) Stored show ?thesis by (simp add: load_videos_info_def)
  next
    case (Inr vs)
    with assms(1) Stored have "vs = videos" by (simp add: load_videos_info_def)
    with Inr have "\<not> list_ex has_long_int items" "validate_all ev items = Inr videos"
      by (auto simp: read_ledger_def json_load_def then_do_def split: if_splits)
    from validate_all_durations [OF this(2,1) assms(2)] show ?thesis .
  qed
qed

text \<open>Saving a record when everything to be written can be written.\<close>

lemma has_surrogate_item_model_dump:
  "has_surrogate_item (JObject (model_dump v)) = list_ex has_surrogate (text_fields v)"
  by (simp add: has_surrogate_item_def model_dump_def text_fields_def)

lemma write_text_model_dump:
  "write_text (map (\<lambda>v. JObject (model_dump v)) vs) =
     (if list_ex (\<lambda>v. list_ex has_surrogate (text_fields v)) vs then Inl UnicodeEncodeError
      else Inr (Stored (map (\<lambda>v. JObject (model_dump v)) vs)))"
  by (simp add: write_text_def list_ex_iff has_surrogate_item_model_dump)

lemma save_video_info_writes:
  assumes "fst (load_videos_info ev s) = Inr videos"
    and "\<not> int_too_long (duration r)"
    and "\<forall>x i. lax_int ev x = Inr i \<longrightarrow> \<not> int_too_long i"
    and "\<not> list_ex has_surrogate (text_fields r)"
    and "\<forall>v\<in>set videos. id' v \<noteq> id' r \<longrightarrow> \<not> list_ex has_surrogate (text_fields v)"
  shows "save_video_info ev r s =
     (Inr (),
      (snd (load_videos_info ev s))
      \<lparr>VIDEOS_INFO_FILE :=
         Stored (map (\<lambda>v. JObject (model_dump v))
                   (filter (\<lambda>v. id' v \<noteq> id' r) videos @ [r]))\<rparr>)"
proof -
  define kept where "kept = filter (\<lambda>v. id' v \<noteq> id' r) videos @ [r]"
  have "\<not> list_ex (\<lambda>v. int_too_long (duration v)) videos"
    by (rule loaded_durations [OF assms(1,3)])
  then have "\<not> list_ex (\<lambda>v. int_too_long (duration v)) kept"
    using assms(2) by (auto simp: kept_def list_ex_iff)
  then have d: "json_dumps (map (\<lambda>v. JObject (model_dump v)) kept) =
      Inr (map (\<lambda>v. JObject (model_dump v)) kept)"
    by (simp only: json_dumps_model_dump if_False)
  have "\<not> list_ex (\<lambda>v. list_ex has_surrogate (text_fields v)) kept"
    using assms(4,5) by (auto simp: kept_def list_ex_iff)
  then have w: "write_text (map (\<lambda>v. JObject (model_dump v)) kept) =
      Inr (Stored (map (\<lambda>v. JObject (model_dump v)) kept))"
    by (simp only: write_text_model_dump if_False)
  obtain s1 where l: "load_videos_info ev s = (Inr videos, s1)"
    using assms(1) by (cases "load_videos_info ev s") auto
  have "save_video_info ev r s =
      (Inr (), s1\<lparr>VIDEOS_INFO_FILE := Stored (map (\<lambda>v. JObject (model_dump v)) kept)\<rparr>)"
    using d w by (simp add: save_video_info_def l Let_def kept_def)
  then show ?thesis by (simp add: l kept_def)
qed

lemma load_videos_info_stored:
  assumes "VIDEOS_INFO_FILE s = Stored (map (\<lambda>v. JObject (model_dump v)) vs)"
    and "\<not> list_ex (\<lambda>v. int_too_long (duration v)) vs"
  shows "load_videos_info ev s = (Inr vs, s)"
  using assms by (simp add: load_videos_info_def read_ledger_model_dump)

lemma filter_other_ids:
  "filter (\<lambda>v. id' v \<noteq> id' r) (filter (\<lambda>v. id' v \<noteq> id' r) xs @ [r]) =
     filter (\<lambda>v. id' v \<noteq> id' r) xs"
  by (induction xs) auto

lemma filter_same_id:
  "filter (\<lambda>v. id' v = id' r) (filter (\<lambda>v. id' v \<noteq> id' r) xs @ [r]) = [r]"
  by (induction xs) auto

lemma small_not_long: "\<bar>i\<bar> < 1000 \<Longrightarrow> \<not> int_too_long i"
proof -
  assume a: "\<bar>i\<bar> < 1000"
  have "(10::int) ^ 3 \<le> 10 ^ int_max_str_digits"
    by (rule power_increasing) (simp_all add: int_max_str_digits_def)
  with a show ?thesis by (simp add: int_too_long_def)
qed

lemma limit_is_long: "int_too_long (10 ^ int_max_str_digits)"
  by (simp add: int_too_long_def)

lemma example_lax_int_small:
  "\<forall>x i. lax_int example_env x = Inr i \<longrightarrow> \<bar>i\<bar> < 10 ^ int_max_str_digits"
proof (intro allI impI)
  fix x i assume "lax_int example_env x = Inr i"
  then have "\<bar>i\<bar> < 1000"
    by (auto simp: example_env_def split: jval.splits if_splits)
  from small_not_long [OF this] show "\<bar>i\<bar> < 10 ^ int_max_str_digits"
    by (simp add: int_too_long_def)
qed

lemma example_video_small: "\<bar>duration example_video\<bar> < 10 ^ int_max_str_digits"
  using small_not_long [of "duration example_video"]
  by (simp add: example_video_def int_too_long_def)

lemma example_video_text: "\<not> list_ex has_surrogate (text_fields example_video)"
  by (simp add: example_video_def text_fields_def)

lemma example_other_video_text: "\<not> list_ex has_surrogate (text_fields example_other_video)"
  by (simp add: example_other_video_def example_video_def text_fields_def)

lemma example_surrogate_video_text:
  "list_ex has_surrogate (text_fields example_surrogate_video)"
  by (simp add: example_surrogate_video_def example_video_def text_fields_def)

text \<open>
  A record whose title holds a lone surrogate: \<^verbatim>\<open>f.write\<close> raises
  \<^verbatim>\<open>UnicodeEncodeError\<close> after line 74 has emptied the file, and nothing is stored.
\<close>

lemma save_video_info_surrogate_raises:
  "save_video_info example_env example_surrogate_video empty_state =
     (Inl UnicodeEncodeError, empty_state\<lparr>VIDEOS_INFO_FILE := empty_file\<rparr>)"
proof -
  have l: "load_videos_info example_env empty_state = (Inr [], empty_state)"
    by (simp add: load_videos_info_def empty_state_def)
  have "\<not> int_too_long (duration example_surrogate_video)"
    by (rule small_not_long) (simp add: example_surrogate_video_def example_video_def)
  then have d: "json_dumps (map (\<lambda>v. JObject (model_dump v)) [example_surrogate_video]) =
      Inr (map (\<lambda>v. JObject (model_dump v)) [example_surrogate_video])"
    by (simp only: json_dumps_model_dump) simp
  have w: "write_text (map (\<lambda>v. JObject (model_dump v)) [example_surrogate_video]) =
      Inl UnicodeEncodeError"
    using example_surrogate_video_text by (simp only: write_text_model_dump) simp
  show ?thesis
    using d w by (simp add: save_video_info_def l Let_def)
qed

text \<open>
  C1, as the code has it: in every state, for every record \<open>r\<close> that can be written (a
  duration of at most 4300 digits, no lone surrogate in a text field), when the stored
  records of other ids have no lone surrogate either and pydantic converts nothing to
  an int of more than 4300 digits, after \<^verbatim>\<open>save_video_info(r)\<close> the ledger holds
  exactly one record with the id of \<open>r\<close>, and it is \<open>r\<close> itself, whatever record of that
  id was stored before (replaced, not merged); the save returns, and saving \<open>r\<close> again
  leaves the state as the first save left it.
\<close>

theorem C1_upsert_one_record_per_id:
  assumes "\<bar>duration r\<bar> < 10 ^ int_max_str_digits"
    and "\<not> list_ex has_surrogate (text_fields r)"
    and "\<forall>x i. lax_int ev x = Inr i \<longrightarrow> \<bar>i\<bar> < 10 ^ int_max_str_digits"
    and "\<forall>v\<in>set (projr (fst (load_videos_info ev s))).
           id' v \<noteq> id' r \<longrightarrow> \<not> list_ex has_surrogate (text_fields v)"
  shows "filter (\<lambda>v. id' v = id' r)
      (projr (fst (load_videos_info ev (snd (save_video_info ev r s))))) = [r]
   \<and> fst (save_video_info ev r s) = Inr ()
   \<and> snd (save_video_info ev r (snd (save_video_info ev r s))) = snd (save_video_info ev r s)"
proof -
  have h1: "\<not> int_too_long (duration r)" using assms(1) by (simp add: int_too_long_def)
  have h2: "\<forall>x i. lax_int ev x = Inr i \<longrightarrow> \<not> int_too_long i"
    using assms(3) by (simp add: int_too_long_def not_le)
  obtain videos where l: "fst (load_videos_info ev s) = Inr videos"
    using load_videos_info_returns by blast
  have h4: "\<forall>v\<in>set videos. id' v \<noteq> id' r \<longrightarrow> \<not> list_ex has_surrogate (text_fields v)"
    using assms(4) by (simp add: l)
  define kept where "kept = filter (\<lambda>v. id' v \<noteq> id' r) videos @ [r]"
  define s' where "s' = (snd (load_videos_info ev s))
      \<lparr>VIDEOS_INFO_FILE := Stored (map (\<lambda>v. JObject (model_dump v)) kept)\<rparr>"
  have sv: "save_video_info ev r s = (Inr (), s')"
    using save_video_info_writes [OF l h1 h2 assms(2) h4] by (simp add: s'_def kept_def)
  have "\<not> list_ex (\<lambda>v. int_too_long (duration v)) videos"
    by (rule loaded_durations [OF l h2])
  then have k: "\<not> list_ex (\<lambda>v. int_too_long (duration v)) kept"
    using h1 by (auto simp: kept_def list_ex_iff)
  have ld: "load_videos_info ev s' = (Inr kept, s')"
    by (rule load_videos_info_stored [OF _ k]) (simp add: s'_def)
  have one: "filter (\<lambda>v. id' v = id' r) kept = [r]"
    by (simp add: kept_def filter_same_id)
  have again: "save_video_info ev r s' = (Inr (), s')"
  proof -
    have a: "fst (load_videos_info ev s') = Inr kept" by (simp add: ld)
    have b: "\<forall>v\<in>set kept. id' v \<noteq> id' r \<longrightarrow> \<not> list_ex has_surrogate (text_fields v)"
      using h4 by (auto simp: kept_def)
    from save_video_info_writes [OF a h1 h2 assms(2) b]
    have "save_video_info ev r s' =
        (Inr (), s'\<lparr>VIDEOS_INFO_FILE := Stored (map (\<lambda>v. JObject (model_dump v))
           (filter (\<lambda>v. id' v \<noteq> id' r) kept @ [r]))\<rparr>)"
      by (simp add: ld)
    moreover have "filter (\<lambda>v. id' v \<noteq> id' r) kept @ [r] = kept"
      by (simp add: kept_def filter_other_ids)
    ultimately show ?thesis by (simp add: s'_def)
  qed
  show ?thesis by (simp add: sv ld one again)
qed

theorem C1_upsert_one_record_per_id_witness:
  "filter (\<lambda>v. id' v = id' example_video)
      (projr (fst (load_videos_info example_env
         (snd (save_video_info example_env example_video
            (empty_state\<lparr>VIDEOS_INFO_FILE :=
               Stored [JObject (model_dump example_other_video),
                       JObject (model_dump (example_video\<lparr>title := ''Old title''\<rparr>))]\<rparr>)))))) =
     [example_video]
   \<and> fst (save_video_info example_env example_video
        (empty_state\<lparr>VIDEOS_INFO_FILE :=
           Stored [JObject (model_dump example_other_video),
                   JObject (model_dump (example_video\<lparr>title := ''Old title''\<rparr>))]\<rparr>)) = Inr ()"
proof -
  have n: "\<not> list_ex (\<lambda>v. int_too_long (duration v))
      [example_other_video, example_video\<lparr>title := ''Old title''\<rparr>]"
    using small_not_long [of "- 5"] small_not_long [of 212]
    by (simp add: example_other_video_def example_video_def)
  have l: "load_videos_info example_env
      (empty_state\<lparr>VIDEOS_INFO_FILE :=
         Stored [JObject (model_dump example_other_video),
                 JObject (model_dump (example_video\<lparr>title := ''Old title''\<rparr>))]\<rparr>) =
     (Inr [example_other_video, example_video\<lparr>title := ''Old title''\<rparr>],
      empty_state\<lparr>VIDEOS_INFO_FILE :=
         Stored [JObject (model_dump example_other_video),
                 JObject (model_dump (example_video\<lparr>title := ''Old title''\<rparr>))]\<rparr>)"
    by (rule load_videos_info_stored [OF _ n]) simp
  have d: "\<forall>v\<in>set (projr (fst (load_videos_info example_env
      (empty_state\<lparr>VIDEOS_INFO_FILE :=
         Stored [JObject (model_dump example_other_video),
                 JObject (model_dump (example_video\<lparr>title := ''Old title''\<rparr>))]\<rparr>)))).
      id' v \<noteq> id' example_video \<longrightarrow> \<not> list_ex has_surrogate (text_fields v)"
    using example_other_video_text by (simp add: l)
  from C1_upsert_one_record_per_id
    [OF example_video_small example_video_text example_lax_int_small d]
  show ?thesis by blast
qed

text \<open>
  A record whose duration has 4301 digits: \<^verbatim>\<open>json.dumps\<close> raises \<^verbatim>\<open>ValueError\<close> after
  line 74 has emptied the file, so the save raises and the ledger, which held a record
  of that id, holds no record at all afterwards.
\<close>

theorem C1_long_duration_not_stored:
  "fst (save_video_info example_env example_long_video
      (empty_state\<lparr>VIDEOS_INFO_FILE := Stored [JObject (model_dump example_video)]\<rparr>)) =
     Inl ValueError
   \<and> VIDEOS_INFO_FILE (snd (save_video_info example_env example_long_video
      (empty_state\<lparr>VIDEOS_INFO_FILE := Stored [JObject (model_dump example_video)]\<rparr>))) =
     empty_file
   \<and> fst (load_videos_info example_env
      (snd (save_video_info example_env example_long_video
         (empty_state\<lparr>VIDEOS_INFO_FILE := Stored [JObject (model_dump example_video)]\<rparr>)))) =
     Inr []"
proof -
  have n: "\<not> list_ex (\<lambda>v. int_too_long (duration v)) [example_video]"
    using small_not_long [of 212] by (simp add: example_video_def)
  have l: "load_videos_info example_env
      (empty_state\<lparr>VIDEOS_INFO_FILE := Stored [JObject (model_dump example_video)]\<rparr>) =
     (Inr [example_video],
      empty_state\<lparr>VIDEOS_INFO_FILE := Stored [JObject (model_dump example_video)]\<rparr>)"
    by (rule load_videos_info_stored [OF _ n]) simp
  have d: "json_dumps (map (\<lambda>v. JObject (model_dump v)) [example_long_video]) = Inl ValueError"
    using limit_is_long by (simp only: json_dumps_model_dump) (simp add: example_long_video_def)
  have i: "id' example_long_video = id' example_video"
    by (simp add: example_long_video_def)
  have s: "save_video_info example_env example_long_video
      (empty_state\<lparr>VIDEOS_INFO_FILE := Stored [JObject (model_dump example_video)]\<rparr>) =
     (Inl ValueError, empty_state\<lparr>VIDEOS_INFO_FILE := empty_file\<rparr>)"
    using d by (simp add: save_video_info_def l Let_def i)
  show ?thesis
    by (simp add: s) (simp add: load_videos_info_def read_ledger_def json_load_def then_do_def
        empty_file_def)
qed

text \<open>
  C2, as the code has it: for every record \<open>r\<close> that can be written (a duration of at
  most 4300 digits, no lone surrogate in a text field), when the stored records of
  other ids have no lone surrogate either and pydantic converts nothing to an int of
  more than 4300 digits, \<^verbatim>\<open>load_videos_info()\<close> after \<^verbatim>\<open>save_video_info(r)\<close> returns a
  list that contains \<open>r\<close>, equal field for field: the file holds the dump of every
  record of that list, each field under its key, and each is read back from it.
\<close>

theorem C2_load_after_save_contains:
  assumes "\<bar>duration r\<bar> < 10 ^ int_max_str_digits"
    and "\<not> list_ex has_surrogate (text_fields r)"
    and "\<forall>x i. lax_int ev x = Inr i \<longrightarrow> \<bar>i\<bar> < 10 ^ int_max_str_digits"
    and "\<forall>v\<in>set (projr (fst (load_videos_info ev s))).
           id' v \<noteq> id' r \<longrightarrow> \<not> list_ex has_surrogate (text_fields v)"
  shows "\<exists>videos. fst (load_videos_info ev (snd (save_video_info ev r s))) = Inr videos
     \<and> r \<in> set videos
     \<and> VIDEOS_INFO_FILE (snd (save_video_info ev r s)) =
         Stored (map (\<lambda>v. JObject (model_dump v)) videos)"
proof -
  have h1: "\<not> int_too_long (duration r)" using assms(1) by (simp add: int_too_long_def)
  have h2: "\<forall>x i. lax_int ev x = Inr i \<longrightarrow> \<not> int_too_long i"
    using assms(3) by (simp add: int_too_long_def not_le)
  obtain videos where l: "fst (load_videos_info ev s) = Inr videos"
    using load_videos_info_returns by blast
  have h4: "\<forall>v\<in>set videos. id' v \<noteq> id' r \<longrightarrow> \<not> list_ex has_surrogate (text_fields v)"
    using assms(4) by (simp add: l)
  define kept where "kept = filter (\<lambda>v. id' v \<noteq> id' r) videos @ [r]"
  have sv: "snd (save_video_info ev r s) = (snd (load_videos_info ev s))
      \<lparr>VIDEOS_INFO_FILE := Stored (map (\<lambda>v. JObject (model_dump v)) kept)\<rparr>"
    using save_video_info_writes [OF l h1 h2 assms(2) h4] by (simp add: kept_def)
  have "\<not> list_ex (\<lambda>v. int_too_long (duration v)) videos"
    by (rule loaded_durations [OF l h2])
  then have k: "\<not> list_ex (\<lambda>v. int_too_long (duration v)) kept"
    using h1 by (auto simp: kept_def list_ex_iff)
  have "load_videos_info ev (snd (save_video_info ev r s)) =
      (Inr kept, snd (save_video_info ev r s))"
    by (rule load_videos_info_stored [OF _ k]) (simp add: sv)
  moreover have "r \<in> set kept" by (simp add: kept_def)
  ultimately show ?thesis using sv by auto
qed

theorem C2_load_after_save_contains_witness:
  "\<exists>videos. fst (load_videos_info example_env
      (snd (save_video_info example_env example_video empty_state))) = Inr videos
     \<and> example_video \<in> set videos"
proof -
  have d: "\<forall>v\<in>set (projr (fst (load_videos_info example_env empty_state))).
      id' v \<noteq> id' example_video \<longrightarrow> \<not> list_ex has_surrogate (text_fields v)"
    by (simp add: load_videos_info_def empty_state_def)
  from C2_load_after_save_contains
    [OF example_video_small example_video_text example_lax_int_small d]
  show ?thesis by blast
qed

text \<open>
  For a record whose duration has 4301 digits the save raises with the file emptied,
  and the list loaded afterwards is empty: it does not contain the record.
\<close>

theorem C2_long_duration_not_loaded:
  "fst (load_videos_info example_env
      (snd (save_video_info example_env example_long_video empty_state))) = Inr []
   \<and> fst (save_video_info example_env example_long_video empty_state) = Inl ValueError"
proof -
  have l: "load_videos_info example_env empty_state = (Inr [], empty_state)"
    by (simp add: load_videos_info_def empty_state_def)
  have d: "json_dumps (map (\<lambda>v. JObject (model_dump v)) [example_long_video]) = Inl ValueError"
    using limit_is_long by (simp only: json_dumps_model_dump) (simp add: example_long_video_def)
  have s: "save_video_info example_env example_long_video empty_state =
     (Inl ValueError, empty_state\<lparr>VIDEOS_INFO_FILE := empty_file\<rparr>)"
    using d by (simp add: save_video_info_def l Let_def)
  show ?thesis
    by (simp add: s) (simp add: load_videos_info_def read_ledger_def json_load_def then_do_def
        empty_file_def)
qed

text \<open>
  C8: \<^verbatim>\<open>load_videos_info\<close> returns in every state and never raises: the empty list
  and no output when the file is missing; the empty list, after printing the error,
  when opening the file, \<^verbatim>\<open>json.load\<close> or the validation of an element raises; the
  validated records, and no output, otherwise: so the records whose dumps the file
  holds.
\<close>

theorem C8_load_videos_info_total:
  "(\<exists>videos. fst (load_videos_info ev s) = Inr videos)
   \<and> (VIDEOS_INFO_FILE s = Missing \<longrightarrow> load_videos_info ev s = (Inr [], s))
   \<and> (\<forall>e. VIDEOS_INFO_FILE s = Unreadable e \<longrightarrow>
        load_videos_info ev s =
          (Inr [], s\<lparr>stdout := stdout s @ [''Error loading videos info: '' @ str_e ev e]\<rparr>))
   \<and> (\<forall>items e. VIDEOS_INFO_FILE s = Stored items \<and> read_ledger ev (Stored items) = Inl e \<longrightarrow>
        load_videos_info ev s =
          (Inr [], s\<lparr>stdout := stdout s @ [''Error loading videos info: '' @ str_e ev e]\<rparr>))
   \<and> (\<forall>items videos.
        VIDEOS_INFO_FILE s = Stored items \<and> read_ledger ev (Stored items) = Inr videos \<longrightarrow>
        load_videos_info ev s = (Inr videos, s))
   \<and> (\<forall>videos. VIDEOS_INFO_FILE s = Stored (map (\<lambda>v. JObject (model_dump v)) videos)
        \<and> \<not> list_ex (\<lambda>v. int_too_long (duration v)) videos \<longrightarrow>
        load_videos_info ev s = (Inr videos, s))"
proof -
  have "\<exists>videos. fst (load_videos_info ev s) = Inr videos"
    by (rule load_videos_info_returns)
  moreover have "VIDEOS_INFO_FILE s = Missing \<longrightarrow> load_videos_info ev s = (Inr [], s)"
    by (simp add: load_videos_info_def)
  moreover have "\<forall>e. VIDEOS_INFO_FILE s = Unreadable e \<longrightarrow>
        load_videos_info ev s =
          (Inr [], s\<lparr>stdout := stdout s @ [''Error loading videos info: '' @ str_e ev e]\<rparr>)"
    by (simp add: load_videos_info_def read_ledger_def json_load_def then_do_def)
  moreover have "\<forall>items e.
        VIDEOS_INFO_FILE s = Stored items \<and> read_ledger ev (Stored items) = Inl e \<longrightarrow>
        load_videos_info ev s =
          (Inr [], s\<lparr>stdout := stdout s @ [''Error loading videos info: '' @ str_e ev e]\<rparr>)"
    by (simp add: load_videos_info_def)
  moreover have "\<forall>items videos.
        VIDEOS_INFO_FILE s = Stored items \<and> read_ledger ev (Stored items) = Inr videos \<longrightarrow>
        load_videos_info ev s = (Inr videos, s)"
    by (simp add: load_videos_info_def)
  moreover have "\<forall>videos. VIDEOS_INFO_FILE s = Stored (map (\<lambda>v. JObject (model_dump v)) videos)
        \<and> \<not> list_ex (\<lambda>v. int_too_long (duration v)) videos \<longrightarrow>
        load_videos_info ev s = (Inr videos, s)"
    by (simp add: load_videos_info_stored)
  ultimately show ?thesis by blast
qed

theorem C8_load_videos_info_total_witness:
  "load_videos_info example_env (empty_state\<lparr>VIDEOS_INFO_FILE := Unreadable ValueError\<rparr>) =
     (Inr [], empty_state\<lparr>VIDEOS_INFO_FILE := Unreadable ValueError,
        stdout := [''Error loading videos info: error'']\<rparr>)
   \<and> load_videos_info example_env empty_state = (Inr [], empty_state)
   \<and> load_videos_info example_env (empty_state\<lparr>VIDEOS_INFO_FILE := Stored []\<rparr>) =
     (Inr [], empty_state\<lparr>VIDEOS_INFO_FILE := Stored []\<rparr>)
   \<and> load_videos_info example_env (empty_state\<lparr>VIDEOS_INFO_FILE := Stored [JOther]\<rparr>) =
     (Inr [], empty_state\<lparr>VIDEOS_INFO_FILE := Stored [JOther],
        stdout := [''Error loading videos info: error'']\<rparr>)
   \<and> load_videos_info example_env
       (empty_state\<lparr>VIDEOS_INFO_FILE := Stored [JObject [(''id'', JStr ''ABC123'')]]\<rparr>) =
     (Inr [], empty_state\<lparr>VIDEOS_INFO_FILE := Stored [JObject [(''id'', JStr ''ABC123'')]],
        stdout := [''Error loading videos info: ValidationError'']\<rparr>)
   \<and> load_videos_info example_env
       (empty_state\<lparr>VIDEOS_INFO_FILE :=
          Stored (map (\<lambda>v. JObject (model_dump v)) [example_video, example_other_video])\<rparr>) =
     (Inr [example_video, example_other_video],
      empty_state\<lparr>VIDEOS_INFO_FILE :=
          Stored (map (\<lambda>v. JObject (model_dump v)) [example_video, example_other_video])\<rparr>)"
proof -
  have n: "\<not> list_ex (\<lambda>v. int_too_long (duration v)) [example_video, example_other_video]"
    using small_not_long [of "- 5"] small_not_long [of 212]
    by (simp add: example_other_video_def example_video_def)
  have r1: "read_ledger example_env (Stored [JOther]) = Inl TypeError"
    by (simp add: read_ledger_def json_load_def then_do_def validate_def has_long_int_def)
  have r2: "read_ledger example_env (Stored [JObject [(''id'', JStr ''ABC123'')]]) =
      Inl validation_error"
    by (simp add: read_ledger_def json_load_def then_do_def validate_def has_long_int_def
        str_field_def)
  have e: "str_e example_env ValueError = ''error''" "str_e example_env TypeError = ''error''"
    "str_e example_env validation_error = ''ValidationError''"
    by (simp_all add: example_env_def validation_error_def)
  have o: "stdout (empty_state\<lparr>VIDEOS_INFO_FILE := f\<rparr>) = []" for f
    by (simp add: empty_state_def)
  have "load_videos_info example_env (empty_state\<lparr>VIDEOS_INFO_FILE := Unreadable ValueError\<rparr>) =
     (Inr [], empty_state\<lparr>VIDEOS_INFO_FILE := Unreadable ValueError,
        stdout := [''Error loading videos info: error'']\<rparr>)"
    using C8_load_videos_info_total
        [of example_env "empty_state\<lparr>VIDEOS_INFO_FILE := Unreadable ValueError\<rparr>"]
    by (simp add: e o)
  moreover have "load_videos_info example_env empty_state = (Inr [], empty_state)"
    using C8_load_videos_info_total [of example_env empty_state]
    by (simp add: empty_state_def)
  moreover have "load_videos_info example_env (empty_state\<lparr>VIDEOS_INFO_FILE := Stored []\<rparr>) =
     (Inr [], empty_state\<lparr>VIDEOS_INFO_FILE := Stored []\<rparr>)"
    using C8_load_videos_info_total [of example_env "empty_state\<lparr>VIDEOS_INFO_FILE := Stored []\<rparr>"]
    by (simp add: read_ledger_def json_load_def then_do_def)
  moreover have "load_videos_info example_env (empty_state\<lparr>VIDEOS_INFO_FILE := Stored [JOther]\<rparr>) =
     (Inr [], empty_state\<lparr>VIDEOS_INFO_FILE := Stored [JOther],
        stdout := [''Error loading videos info: error'']\<rparr>)"
    using C8_load_videos_info_total
        [of example_env "empty_state\<lparr>VIDEOS_INFO_FILE := Stored [JOther]\<rparr>"]
    by (simp add: r1 e o)
  moreover have "load_videos_info example_env
       (empty_state\<lparr>VIDEOS_INFO_FILE := Stored [JObject [(''id'', JStr ''ABC123'')]]\<rparr>) =
     (Inr [], empty_state\<lparr>VIDEOS_INFO_FILE := Stored [JObject [(''id'', JStr ''ABC123'')]],
        stdout := [''Error loading videos info: ValidationError'']\<rparr>)"
    using C8_load_videos_info_total [of example_env
        "empty_state\<lparr>VIDEOS_INFO_FILE := Stored [JObject [(''id'', JStr ''ABC123'')]]\<rparr>"]
    by (simp add: r2 e o)
  moreover have "load_videos_info example_env
       (empty_state\<lparr>VIDEOS_INFO_FILE :=
          Stored (map (\<lambda>v. JObject (model_dump v)) [example_video, example_other_video])\<rparr>) =
     (Inr [example_video, example_other_video],
      empty_state\<lparr>VIDEOS_INFO_FILE :=
          Stored (map (\<lambda>v. JObject (model_dump v)) [example_video, example_other_video])\<rparr>)"
  proof -
    have "VIDEOS_INFO_FILE (empty_state\<lparr>VIDEOS_INFO_FILE :=
          Stored (map (\<lambda>v. JObject (model_dump v)) [example_video, example_other_video])\<rparr>) =
        Stored (map (\<lambda>v. JObject (model_dump v)) [example_video, example_other_video])"
      by simp
    with n C8_load_videos_info_total [of example_env
        "empty_state\<lparr>VIDEOS_INFO_FILE :=
          Stored (map (\<lambda>v. JObject (model_dump v)) [example_video, example_other_video])\<rparr>"]
    show ?thesis by blast
  qed
  ultimately show ?thesis by (simp only: simp_thms)
qed

section \<open>Strings: properties\<close>



text \<open>\<^verbatim>\<open>split\<close> returns at least one piece, so \<^verbatim>\<open>[0]\<close> and \<^verbatim>\<open>[-1]\<close> never raise on it.\<close>

lemma pieces_not_Nil: "pieces sep s \<noteq> []"
  by (induction sep s rule: pieces.induct) (auto simp: pieces.simps split: list.splits)

lemma index_first: "xs \<noteq> [] \<Longrightarrow> index xs 0 = Inr (hd xs)"
  by (cases xs) (auto simp: index_def)

lemma index_last: "xs \<noteq> [] \<Longrightarrow> index xs (- 1) = Inr (last xs)"
proof -
  assume "xs \<noteq> []"
  then obtain y ys where xs: "xs = y # ys" by (cases xs) auto
  have "nat (int (length (y # ys)) + - 1) = length ys" by simp
  then have "index (y # ys) (- 1) = Inr ((y # ys) ! length ys)"
    by (simp add: index_def)
  also have "(y # ys) ! length ys = last (y # ys)"
    by (simp add: last_conv_nth)
  finally show ?thesis by (simp add: xs)
qed

lemma id_after_v_eq: "id_after_v url = Inr (hd (pieces ''&'' (last (pieces ''v='' url))))"
  by (simp add: id_after_v_def split_def then_do_def index_first index_last pieces_not_Nil)

lemma id_after_slash_eq:
  "id_after_slash url = Inr (hd (pieces ''?'' (last (pieces ''/'' url))))"
  by (simp add: id_after_slash_def split_def then_do_def index_first index_last pieces_not_Nil)


lemma handler_video_id_returns: "\<exists>v. handler_video_id url = Inr v"
  by (simp add: handler_video_id_def id_after_v_eq id_after_slash_eq)

section \<open>The request handlers: properties\<close>

text \<open>
  C7: for a URL that contains neither \<^verbatim>\<open>youtube.com\<close> nor \<^verbatim>\<open>youtu.be\<close>, the handler
  of \<^verbatim>\<open>GET /video-formats/\<close> and the handler of \<^verbatim>\<open>POST /download/\<close> both return the
  validation error and leave the state as it was: no call to the engine is recorded,
  no background task is enqueued and the progress table is unchanged.
\<close>

theorem C7_invalid_url_rejected:
  assumes "\<not> substring_in ''youtube.com'' url" and "\<not> substring_in ''youtu.be'' url"
  shows "get_formats ev url s = (Status_error msg_invalid_url, s)
    \<and> download url format_id s = (Inr (Status_error msg_invalid_url), s)
    \<and> engine_calls (snd (get_formats ev url s)) = engine_calls s
    \<and> engine_calls (snd (download url format_id s)) = engine_calls s
    \<and> background_tasks (snd (download url format_id s)) = background_tasks s
    \<and> download_progress (snd (download url format_id s)) = download_progress s"
  using assms by (simp add: get_formats_def download_def valid_url_def)

theorem C7_invalid_url_rejected_witness:
  "get_formats example_env ''https://vimeo.com/12345?v=abc'' empty_state =
     (Status_error msg_invalid_url, empty_state)
   \<and> download ''https://vimeo.com/12345?v=abc'' None empty_state =
     (Inr (Status_error msg_invalid_url), empty_state)"
  using C7_invalid_url_rejected
    [of "''https://vimeo.com/12345?v=abc''" example_env empty_state None]
  by simp

text \<open>
  C10: when the URL passes the domain test of \<^verbatim>\<open>POST /download/\<close> but the identifier
  read off it is \<^verbatim>\<open>unknown\<close>, the handler returns an error and leaves the state as it
  was: no background task, no entry in the progress table. A URL that contains
  \<^verbatim>\<open>youtube.com\<close>, no \<^verbatim>\<open>v=\<close> and no \<^verbatim>\<open>youtu.be\<close> is such a URL.
\<close>

theorem C10_unknown_id_rejected:
  "(valid_url url \<and> handler_video_id url = Inr ''unknown'' \<longrightarrow>
      download url format_id s = (Inr (Status_error msg_unknown_id), s)
      \<and> background_tasks (snd (download url format_id s)) = background_tasks s
      \<and> download_progress (snd (download url format_id s)) = download_progress s)
   \<and> (substring_in ''youtube.com'' url \<and> \<not> substring_in ''v='' url
        \<and> \<not> substring_in ''youtu.be'' url \<longrightarrow>
      valid_url url \<and> handler_video_id url = Inr ''unknown'')"
  by (auto simp: download_def valid_url_def handler_video_id_def)

theorem C10_unknown_id_rejected_witness:
  "download ''https://www.youtube.com/playlist?list=PL1'' (Some ''22'') empty_state =
     (Inr (Status_error msg_unknown_id), empty_state)
   \<and> download ''https://www.youtube.com/watch?v=unknown&t=3'' None empty_state =
     (Inr (Status_error msg_unknown_id), empty_state)"
proof -
  have a: "substring_in ''youtube.com'' ''https://www.youtube.com/playlist?list=PL1''
      \<and> \<not> substring_in ''v='' ''https://www.youtube.com/playlist?list=PL1''
      \<and> \<not> substring_in ''youtu.be'' ''https://www.youtube.com/playlist?list=PL1''"
    by simp
  have b: "valid_url ''https://www.youtube.com/watch?v=unknown&t=3''
      \<and> handler_video_id ''https://www.youtube.com/watch?v=unknown&t=3'' = Inr ''unknown''"
    by (simp add: valid_url_def handler_video_id_def id_after_v_def split_def then_do_def
        index_def pieces.simps)
  show ?thesis
    using a b
      C10_unknown_id_rejected
        [of "''https://www.youtube.com/playlist?list=PL1''" "Some ''22''" empty_state]
      C10_unknown_id_rejected
        [of "''https://www.youtube.com/watch?v=unknown&t=3''" None empty_state]
    by blast
qed

section \<open>The download worker: properties\<close>

text \<open>What \<^verbatim>\<open>download_video\<close> does when its \<^verbatim>\<open>try\<close> block raises.\<close>

lemma download_video_on_exception:
  assumes "download_video_try ev url format_id s = (Inl e, s1)"
    and "worker_video_id url = Inr video_id"
  shows "download_video ev url format_id s =
     (Inr None,
      (set_progress video_id
         [(''progress'', PInt 0), (''status'', PStr ''error''),
          (''error'', PStr (friendly_message (str_e ev e))),
          (''original_error'', PStr (str_e ev e))] s1)
      \<lparr>stdout := stdout s1 @ [''Error downloading video: '' @ str_e ev e]\<rparr>)"
  using assms
  by (simp add: download_video_def download_video_except_def set_progress_def Let_def)




text \<open>
  C6: the identifier under which the worker records an error is, by line 213, what
  follows the last \<^verbatim>\<open>v=\<close> up to the next \<^verbatim>\<open>&\<close> when the URL contains \<^verbatim>\<open>v=\<close>, and
  \<^verbatim>\<open>unknown\<close> otherwise. The rule for \<^verbatim>\<open>youtu.be\<close> URLs, which the handler of
  \<^verbatim>\<open>POST /download/\<close> applies at line 280, is missing there: for
  \<^verbatim>\<open>https://youtu.be/ABC123\<close> the handler queues the download under \<^verbatim>\<open>ABC123\<close> and the
  worker records the error under \<^verbatim>\<open>unknown\<close>, leaving the entry of \<^verbatim>\<open>ABC123\<close> queued.
\<close>

theorem C6_worker_misses_youtu_be:
  "handler_video_id ''https://youtu.be/ABC123'' = Inr ''ABC123''
   \<and> worker_video_id ''https://youtu.be/ABC123'' = Inr ''unknown''
   \<and> fst (download ''https://youtu.be/ABC123'' None empty_state) =
       Inr (Status_success_download ''Download started'' ''ABC123'')
   \<and> download_progress
        (snd (download_video example_env ''https://youtu.be/ABC123'' None
           (snd (download ''https://youtu.be/ABC123'' None empty_state)))) ''ABC123'' =
       Some [(''progress'', PInt 0), (''status'', PStr ''queued'')]
   \<and> download_progress
        (snd (download_video example_env ''https://youtu.be/ABC123'' None
           (snd (download ''https://youtu.be/ABC123'' None empty_state)))) ''unknown'' =
       Some [(''progress'', PInt 0), (''status'', PStr ''error''),
             (''error'', PStr msg_rate_limited),
             (''original_error'', PStr ''ERROR: HTTP Error 429: DNS'')]"
proof -
  have h: "handler_video_id ''https://youtu.be/ABC123'' = Inr ''ABC123''"
    by (simp add: handler_video_id_def id_after_slash_def split_def then_do_def index_def
        pieces.simps)
  have w: "worker_video_id ''https://youtu.be/ABC123'' = Inr ''unknown''"
    by (simp add: worker_video_id_def)
  have m: "friendly_message ''ERROR: HTTP Error 429: DNS'' = msg_rate_limited"
    by (simp add: friendly_message_def)
  have d: "download ''https://youtu.be/ABC123'' None empty_state =
      (Inr (Status_success_download ''Download started'' ''ABC123''),
       (set_progress ''ABC123'' [(''progress'', PInt 0), (''status'', PStr ''queued'')]
          empty_state)
       \<lparr>background_tasks := [(''https://youtu.be/ABC123'', None)]\<rparr>)"
    by (simp add: download_def valid_url_def h empty_state_def)
  have t: "download_video_try example_env ''https://youtu.be/ABC123'' None s =
      (Inl (LibraryError ''ERROR: HTTP Error 429: DNS''),
       call_engine ((download_opts example_env None)\<lparr>opt_skip_download := True\<rparr>)
         ''https://youtu.be/ABC123'' False s)" for s
    by (simp add: download_video_try_def example_env_def Let_def)
  have e: "str_e example_env (LibraryError ''ERROR: HTTP Error 429: DNS'')
      = ''ERROR: HTTP Error 429: DNS''"
    by (simp add: example_env_def)
  have "download_progress
        (snd (download_video example_env ''https://youtu.be/ABC123'' None s)) =
      (download_progress s)(''unknown'' \<mapsto>
        [(''progress'', PInt 0), (''status'', PStr ''error''),
         (''error'', PStr msg_rate_limited),
         (''original_error'', PStr ''ERROR: HTTP Error 429: DNS'')])" for s
    by (simp add: download_video_on_exception [OF t w] e m set_progress_def
        call_engine_def)
  then show ?thesis
    by (simp add: h w d set_progress_def)
qed

section \<open>Numbers: properties\<close>


lemma bit_length_bounds: "0 < n \<Longrightarrow> 2 ^ (bit_length n - 1) \<le> n \<and> n < 2 ^ bit_length n"
proof (induction n rule: bit_length.induct)
  case (1 n)
  show ?case
  proof (cases "n div 2 = 0")
    case True
    with "1.prems" have "n = 1" by (simp add: div_eq_0_iff) 
    then show ?thesis by (simp add: bit_length.simps)
  next
    case False
    then have pos: "0 < n div 2" by simp
    from "1.IH" [OF _ pos] "1.prems"
    have ih: "2 ^ (bit_length (n div 2) - 1) \<le> n div 2" "n div 2 < 2 ^ bit_length (n div 2)"
      by auto
    have bl: "bit_length n = Suc (bit_length (n div 2))"
      using "1.prems" by (subst bit_length.simps) simp
    have "0 < bit_length (n div 2)"
      using pos by (subst bit_length.simps) simp
    then have "(2::nat) ^ bit_length (n div 2) = 2 * 2 ^ (bit_length (n div 2) - 1)"
      by (cases "bit_length (n div 2)") auto
    with ih have "2 ^ bit_length (n div 2) \<le> 2 * (n div 2)" by simp
    then have lo: "2 ^ (bit_length n - 1) \<le> n" using bl by simp
    from ih have "n div 2 + 1 \<le> 2 ^ bit_length (n div 2)" by simp
    then have "2 * (n div 2) + 2 \<le> 2 ^ bit_length n" using bl by simp
    then have "n < 2 ^ bit_length n" by linarith
    with lo show ?thesis by simp
  qed
qed


lemma floor_log2_upper: "0 < x \<Longrightarrow> x < pow2 (floor_log2 x + 1)"
proof (cases "1 \<le> x")
  case True
  define n where "n = nat \<lfloor>x\<rfloor>"
  have n: "0 < n" using True by (auto simp: n_def le_floor_iff)
  have "x < of_int \<lfloor>x\<rfloor> + 1" by linarith
  also have "of_int \<lfloor>x\<rfloor> + 1 = rat_of_nat (n + 1)"
  proof -
    have "int n = \<lfloor>x\<rfloor>" unfolding n_def using True by simp
    then have "rat_of_int (int n) = rat_of_int \<lfloor>x\<rfloor>" by simp
    then show ?thesis by simp
  qed
  also have "n + 1 \<le> 2 ^ bit_length n" using bit_length_bounds [OF n] by simp
  then have "rat_of_nat (n + 1) \<le> rat_of_nat (2 ^ bit_length n)" by (rule of_nat_mono)
  finally have "x < 2 ^ bit_length n" by simp
  then show ?thesis using True
    by (simp add: floor_log2_def pow2_def n_def [symmetric])
next
  case False
  assume pos: "0 < x"
  define n where "n = nat (\<lceil>1 / x\<rceil> - 1)"
  have "1 < 1 / x" using False pos by simp
  then have c: "2 \<le> \<lceil>1 / x\<rceil>" by linarith
  then have n: "0 < n" unfolding n_def by linarith
  have b: "0 < bit_length n" using n by (subst bit_length.simps) simp
  have "2 ^ (bit_length n - 1) \<le> n" using bit_length_bounds [OF n] by simp
  then have "rat_of_nat (2 ^ (bit_length n - 1)) \<le> rat_of_nat n" by (rule of_nat_mono)
  also have "rat_of_nat n = of_int \<lceil>1 / x\<rceil> - 1"
  proof -
    have "int n = \<lceil>1 / x\<rceil> - 1" unfolding n_def using c by linarith
    then have "rat_of_int (int n) = rat_of_int (\<lceil>1 / x\<rceil> - 1)" by simp
    then show ?thesis by simp
  qed
  also have "\<dots> < 1 / x" by linarith
  finally have "2 ^ (bit_length n - 1) < 1 / x" by simp
  then have lt: "x < 1 / 2 ^ (bit_length n - 1)" using pos by (simp add: field_simps)
  show ?thesis
  proof (cases "bit_length n = 1")
    case True
    then show ?thesis using False lt
      by (simp add: floor_log2_def pow2_def n_def [symmetric])
  next
    case f: False
    then have "1 < bit_length n" using b by simp
    then have "nat (int (bit_length n) - 1) = bit_length n - 1" by simp
    then show ?thesis using False lt \<open>1 < bit_length n\<close>
      by (simp add: floor_log2_def pow2_def n_def [symmetric])
  qed
qed














text \<open>
  The four fractions are the floats written \<^verbatim>\<open>33.33\<close>, \<^verbatim>\<open>66.67\<close>, \<^verbatim>\<open>0.12\<close> and
  \<^verbatim>\<open>0.38\<close>: each is within \<open>10\<^sup>-\<^sup>1\<^sup>4\<close> of that decimal.
\<close>

lemma example_floats_near:
  "\<bar>2345390243441541 / 70368744177664 - 3333 / 100 :: rat\<bar> < 1 / 10 ^ 14"
  "\<bar>4691484174324859 / 70368744177664 - 6667 / 100 :: rat\<bar> < 1 / 10 ^ 14"
  "\<bar>1080863910568919 / 9007199254740992 - 12 / 100 :: rat\<bar> < 1 / 10 ^ 14"
  "\<bar>3422735716801577 / 9007199254740992 - 38 / 100 :: rat\<bar> < 1 / 10 ^ 14"
  by simp_all


section \<open>The progress hook: properties\<close>



section \<open>The format lister: properties\<close>

text \<open>The loop is a filter followed by a map.\<close>

lemma collect_formats_eq: "collect_formats acc fs = acc @ map format_info (filter has_video fs)"
  by (induction fs arbitrary: acc) auto

lemma keys_of_Inr: "keys_of key xs = Inr ks \<Longrightarrow> map key xs = map Inr ks"
proof (induction xs arbitrary: ks)
  case Nil
  then show ?case by simp
next
  case (Cons x xs)
  from Cons.prems obtain k ks' where k: "key x = Inr k" and r: "keys_of key xs = Inr ks'"
    and ks: "ks = k # ks'"
    by (auto simp: then_do_def split: sum.splits)
  from Cons.IH [OF r] k ks show ?case by simp
qed

lemma insort_key_map:
  "insort_key f (g x) (map g ys) = map g (insort_key (\<lambda>y. f (g y)) x ys)"
  by (induction ys) auto

lemma sort_key_map: "sort_key f (map g xs) = map g (sort_key (\<lambda>y. f (g y)) xs)"
  by (induction xs) (auto simp: insort_key_map)

lemma sort_reverse_eq:
  assumes "keys_of key xs = Inr ks"
  shows "sort_reverse key xs = Inr (sort_key (\<lambda>x. - projr (key x)) xs)"
proof -
  from assms have m: "map key xs = map Inr ks" by (rule keys_of_Inr)
  then have len: "length ks = length xs" by (metis length_map)
  have "ks = map (\<lambda>x. projr (key x)) xs"
  proof (rule nth_equalityI)
    show "length ks = length (map (\<lambda>x. projr (key x)) xs)" using len by simp
  next
    fix n assume "n < length ks"
    then have "key (xs ! n) = Inr (ks ! n)" using m len
      by (metis nth_map)
    then show "ks ! n = map (\<lambda>x. projr (key x)) xs ! n" using \<open>n < length ks\<close> len by simp
  qed
  then have "zip ks xs = map (\<lambda>x. (projr (key x), x)) xs"
    by (simp add: zip_map1 zip_same_conv_map)
  then have "map snd (sort_key (\<lambda>p. - fst p) (zip ks xs)) = sort_key (\<lambda>x. - projr (key x)) xs"
    by (simp add: sort_key_map o_def)
  with assms show ?thesis by (simp add: sort_reverse_def then_do_def)
qed

lemma keys_of_all: "(\<forall>x \<in> set xs. \<exists>k. key x = Inr k) \<Longrightarrow> \<exists>ks. keys_of key xs = Inr ks"
  by (induction xs) (auto simp: then_do_def)

lemma keys_of_Inl: "keys_of key xs = Inl e \<Longrightarrow> \<exists>x \<in> set xs. key x = Inl e"
  by (induction xs) (auto simp: then_do_def split: sum.splits)


lemma is_digit_other:
  assumes "is_digit c"
  shows "\<not> is_space c" "c \<noteq> CHR ''-''" "c \<noteq> CHR ''+''" "c \<noteq> CHR ''_''"
    "c \<noteq> CHR ''x''" "c \<noteq> CHR ''p''"
  using assms by (auto simp: is_digit_def is_space_def)

lemma substring_in_single: "substring_in [c] s \<longleftrightarrow> c \<in> set s"
  by (induction s) auto

lemma pieces_single_none: "c \<notin> set s \<Longrightarrow> pieces [c] s = [s]"
  by (induction s) (auto simp: pieces.simps)

lemma pieces_single_first: "c \<notin> set w \<Longrightarrow> pieces [c] (w @ c # r) = w # pieces [c] r"
  by (induction w) (auto simp: pieces.simps)

lemma not_digit: "\<not> is_digit CHR ''x''" "\<not> is_digit CHR ''p''" "\<not> is_digit CHR ''_''"
  by (simp_all add: is_digit_def)

lemma digit_string_no_char:
  "digit_string s \<Longrightarrow> CHR ''x'' \<notin> set s \<and> CHR ''p'' \<notin> set s \<and> CHR ''_'' \<notin> set s"
  using not_digit by (auto simp: digit_string_def list_all_iff)

lemma digit_string_last: "digit_string s \<Longrightarrow> \<exists>ys y. s = ys @ [y] \<and> is_digit y"
  by (cases s rule: rev_cases) (auto simp: digit_string_def)

lemma digits_ok_digits: "s \<noteq> [] \<Longrightarrow> list_all is_digit s \<Longrightarrow> digits_ok s"
  by (induction s rule: digits_ok.induct) (auto simp: is_digit_other)

lemma py_int_digits:
  assumes "digit_string s" and "length s \<le> int_max_str_digits"
  shows "py_int s = Inr (int (decimal s))"
proof -
  from assms(1) obtain c cs where s: "s = c # cs" and c: "is_digit c"
    by (cases s) (auto simp: digit_string_def)
  from digit_string_last [OF assms(1)] obtain ys y where l: "s = ys @ [y]" "is_digit y"
    by blast
  have a: "dropWhile is_space s = s" using s c by (simp add: is_digit_other)
  have b: "rev (dropWhile is_space (rev s)) = s" using l by (simp add: is_digit_other)
  have f: "filter (\<lambda>c. c \<noteq> CHR ''_'') s = s"
    using digit_string_no_char [OF assms(1)] by (auto simp: filter_id_conv)
  have ok: "digits_ok s" using assms(1) by (simp add: digit_string_def digits_ok_digits)
  have h: "hd s \<noteq> CHR ''-''" "hd s \<noteq> CHR ''+''" using s c by (simp_all add: is_digit_other)
  show ?thesis
    using assms(2) ok h by (simp add: py_int_def Let_def a b f)
qed

lemma rstrip_p: "digit_string n \<Longrightarrow> rstrip ''p'' (n @ ''p'') = n"
proof -
  assume "digit_string n"
  from digit_string_last [OF this] obtain ys y where l: "n = ys @ [y]" "is_digit y"
    by blast
  then show ?thesis by (simp add: rstrip_def is_digit_other)
qed

lemma resolution_key_unknown:
  "map_of x ''resolution'' = Some (PStr ''unknown'') \<Longrightarrow> resolution_key x = Inr 0"
  by (simp add: resolution_key_def getitem_def then_do_def)

lemma resolution_key_WxH:
  assumes "map_of x ''resolution'' = Some (PStr (w @ ''x'' @ h))"
    and "digit_string w" and "digit_string h" and "length h \<le> int_max_str_digits"
  shows "resolution_key x = Inr (int (decimal h))"
proof -
  have nw: "CHR ''x'' \<notin> set w" and nh: "CHR ''x'' \<notin> set h"
    using digit_string_no_char assms(2,3) by auto
  have p: "pieces ''x'' (w @ CHR ''x'' # h) = [w, h]"
    using pieces_single_first [OF nw, of h] pieces_single_none [OF nh] by simp
  have u: "w @ ''x'' @ h \<noteq> ''unknown''"
  proof
    assume "w @ ''x'' @ h = ''unknown''"
    then have "CHR ''x'' \<in> set ''unknown''" by (metis in_set_conv_decomp append_Cons append_Nil)
    then show False by simp
  qed
  have i: "substring_in ''x'' (w @ ''x'' @ h)" by (simp add: substring_in_single)
  show ?thesis
    using assms(1) u i
    by (simp add: resolution_key_def getitem_def then_do_def split_def p index_def
        py_int_digits [OF assms(3,4)])
qed

lemma resolution_key_Np:
  assumes "map_of x ''resolution'' = Some (PStr (n @ ''p''))"
    and "digit_string n" and "length n \<le> int_max_str_digits"
  shows "resolution_key x = Inr (int (decimal n))"
proof -
  have nx: "CHR ''x'' \<notin> set (n @ ''p'')"
    using digit_string_no_char [OF assms(2)] by simp
  have u: "n @ ''p'' \<noteq> ''unknown''"
  proof
    assume "n @ ''p'' = ''unknown''"
    then have "last (n @ ''p'') = last ''unknown''" by simp
    then show False by simp
  qed
  show ?thesis
    using assms(1) u nx
    by (simp add: resolution_key_def getitem_def then_do_def substring_in_single
        rstrip_p [OF assms(2)] py_int_digits [OF assms(2,3)] del: set_append)
qed

lemma sort_reverse_Inr_D:
  assumes "sort_reverse key xs = Inr ys"
  shows "ys = sort_key (\<lambda>x. - projr (key x)) xs \<and> (\<forall>x \<in> set xs. \<exists>k. key x = Inr k)"
proof -
  from assms obtain ks where ks: "keys_of key xs = Inr ks"
    by (cases "keys_of key xs") (auto simp: sort_reverse_def then_do_def)
  from keys_of_Inr [OF ks] have "set (map key xs) = set (map Inr ks)" by (rule arg_cong)
  then have "key ` set xs = Inr ` set ks" by simp
  then have "\<forall>x \<in> set xs. \<exists>k. key x = Inr k" by (auto simp: image_def set_eq_iff)
  with sort_reverse_eq [OF ks] assms show ?thesis by simp
qed

lemma sort_reverse_all:
  assumes "\<forall>x \<in> set xs. \<exists>k. key x = Inr k"
  shows "sort_reverse key xs = Inr (sort_key (\<lambda>x. - projr (key x)) xs)"
  using keys_of_all [OF assms] sort_reverse_eq by blast

text \<open>The listing when the engine answers and every label of a kept format has a key.\<close>

lemma get_video_formats_listing:
  assumes "extract_info ev formats_opts url = Inr (Some i)"
    and "\<forall>x \<in> set (collect_formats [] (info_candidates i)). \<exists>k. resolution_key x = Inr k"
  shows "get_video_formats ev url s =
     (Listing (case info_id i of None \<Rightarrow> ''unknown'' | Some v \<Rightarrow> v)
        (get_default (info_fields i) ''title'' (PStr ''Unknown''))
        (sort_key (\<lambda>x. - projr (resolution_key x)) (collect_formats [] (info_candidates i))),
      call_engine formats_opts url False s)"
  using assms(1) sort_reverse_all [OF assms(2)]
  by (simp add: get_video_formats_def list_formats_def then_do_def Let_def)

lemma get_video_formats_listing_D:
  assumes "fst (get_video_formats ev url s) = Listing vid t formats"
  shows "\<exists>i. extract_info ev formats_opts url = Inr (Some i)
     \<and> formats = sort_key (\<lambda>x. - projr (resolution_key x))
         (collect_formats [] (info_candidates i))
     \<and> (\<forall>x \<in> set (collect_formats [] (info_candidates i)). \<exists>k. resolution_key x = Inr k)"
proof -
  from assms have l: "list_formats ev url = Inr (Listing vid t formats)"
    by (cases "list_formats ev url") (auto simp: get_video_formats_def Let_def)
  then obtain i where i: "extract_info ev formats_opts url = Inr (Some i)"
    by (cases "extract_info ev formats_opts url")
      (auto simp: list_formats_def then_do_def split: option.splits)
  with l have "sort_reverse resolution_key (collect_formats [] (info_candidates i)) = Inr formats"
    by (cases "sort_reverse resolution_key (collect_formats [] (info_candidates i))")
      (auto simp: list_formats_def then_do_def)
  from sort_reverse_Inr_D [OF this] i show ?thesis by blast
qed

lemma kept_format_has_video:
  assumes "has_video f"
  shows "get (format_info f) ''vcodec'' \<noteq> PStr ''none''
    \<and> get (format_info f) ''resolution'' \<noteq> PStr ''audio only''"
  using assms
  by (auto simp: has_video_def format_info_def get_def get_default_def split: option.splits)

text \<open>
  C9: the loop of lines 115 to 128 keeps exactly the candidates whose \<^verbatim>\<open>vcodec\<close> is not
  \<^verbatim>\<open>none\<close> and whose \<^verbatim>\<open>resolution\<close> is not \<^verbatim>\<open>audio only\<close>, in their order. A listing
  that \<^verbatim>\<open>get_video_formats\<close> returns holds the dictionaries of exactly those candidates
  of the engine's answer, each once, and none of them has the \<^verbatim>\<open>vcodec\<close> \<^verbatim>\<open>none\<close> or
  the \<^verbatim>\<open>resolution\<close> \<^verbatim>\<open>audio only\<close>; and it returns a listing whenever the engine
  answers and every kept format's label has a sort key.
\<close>

theorem C9_listing_keeps_video_formats:
  "collect_formats [] fs =
     map format_info
       (filter (\<lambda>f. get f ''vcodec'' \<noteq> PStr ''none''
                  \<and> get f ''resolution'' \<noteq> PStr ''audio only'') fs)
   \<and> (fst (get_video_formats ev url s) = Listing vid t formats \<longrightarrow>
        (\<exists>i. extract_info ev formats_opts url = Inr (Some i)
           \<and> mset formats =
               mset (map format_info
                 (filter (\<lambda>f. get f ''vcodec'' \<noteq> PStr ''none''
                            \<and> get f ''resolution'' \<noteq> PStr ''audio only'')
                    (info_candidates i))))
        \<and> (\<forall>x \<in> set formats. get x ''vcodec'' \<noteq> PStr ''none''
              \<and> get x ''resolution'' \<noteq> PStr ''audio only''))
   \<and> (extract_info ev formats_opts url = Inr (Some i)
        \<and> (\<forall>x \<in> set (collect_formats [] (info_candidates i)). \<exists>k. resolution_key x = Inr k) \<longrightarrow>
        (\<exists>formats. fst (get_video_formats ev url s) =
            Listing (case info_id i of None \<Rightarrow> ''unknown'' | Some v \<Rightarrow> v)
              (get_default (info_fields i) ''title'' (PStr ''Unknown'')) formats))"
proof -
  have hv: "has_video = (\<lambda>f. get f ''vcodec'' \<noteq> PStr ''none''
      \<and> get f ''resolution'' \<noteq> PStr ''audio only'')"
    by (rule ext) (simp add: has_video_def)
  have a: "collect_formats [] fs = map format_info (filter has_video fs)" for fs
    by (simp add: collect_formats_eq)
  have b: "fst (get_video_formats ev url s) = Listing vid t formats \<longrightarrow>
        (\<exists>i. extract_info ev formats_opts url = Inr (Some i)
           \<and> mset formats = mset (map format_info (filter has_video (info_candidates i))))
        \<and> (\<forall>x \<in> set formats. get x ''vcodec'' \<noteq> PStr ''none''
              \<and> get x ''resolution'' \<noteq> PStr ''audio only'')"
  proof
    assume "fst (get_video_formats ev url s) = Listing vid t formats"
    from get_video_formats_listing_D [OF this] obtain i
      where i: "extract_info ev formats_opts url = Inr (Some i)"
        and f: "formats = sort_key (\<lambda>x. - projr (resolution_key x))
          (map format_info (filter has_video (info_candidates i)))"
      by (auto simp: a)
    from f have m: "mset formats = mset (map format_info (filter has_video (info_candidates i)))"
      by simp
    from f have "set formats = format_info ` set (filter has_video (info_candidates i))"
      by simp
    then have "\<forall>x \<in> set formats. get x ''vcodec'' \<noteq> PStr ''none''
        \<and> get x ''resolution'' \<noteq> PStr ''audio only''"
      using kept_format_has_video by auto
    with i m show "(\<exists>i. extract_info ev formats_opts url = Inr (Some i)
           \<and> mset formats = mset (map format_info (filter has_video (info_candidates i))))
        \<and> (\<forall>x \<in> set formats. get x ''vcodec'' \<noteq> PStr ''none''
              \<and> get x ''resolution'' \<noteq> PStr ''audio only'')"
      by blast
  qed
  have c: "extract_info ev formats_opts url = Inr (Some i)
        \<and> (\<forall>x \<in> set (collect_formats [] (info_candidates i)). \<exists>k. resolution_key x = Inr k) \<longrightarrow>
        (\<exists>formats. fst (get_video_formats ev url s) =
            Listing (case info_id i of None \<Rightarrow> ''unknown'' | Some v \<Rightarrow> v)
              (get_default (info_fields i) ''title'' (PStr ''Unknown'')) formats)"
    using get_video_formats_listing [of ev url i s] by auto
  show ?thesis
    using a [of fs] b c unfolding hv by blast
qed

lemma example_formats_kept:
  assumes "a \<noteq> ''audio only''" "b \<noteq> ''audio only''" "c \<noteq> ''audio only''"
    "d \<noteq> ''audio only''"
  shows "collect_formats [] (example_formats [a, b, c, d]) =
     [example_kept 0 a, example_kept 1 b, example_kept 2 c, example_kept 3 d]"
  using assms
  by (simp add: example_formats_def example_kept_def has_video_def format_info_def get_def
      get_default_def)

lemma example_keys:
  "resolution_key (example_kept n ''1920x1080'') = Inr 1080"
  "resolution_key (example_kept n ''720p'') = Inr 720"
  "resolution_key (example_kept n ''480p'') = Inr 480"
  "resolution_key (example_kept n ''unknown'') = Inr 0"
  "resolution_key (example_kept n ''1080x?'') = Inl ValueError"
  by (simp_all add: example_kept_def resolution_key_def getitem_def then_do_def split_def
      pieces.simps index_def rstrip_def py_int_def Let_def is_space_def is_digit_def
      decimal_def digit_value_def int_max_str_digits_def)

lemma example_extract_info:
  "extract_info (example_listing_env labels) opts url =
     Inr (Some \<lparr>info_id = Some ''ABC123'', info_fields = [(''title'', PStr ''A video'')],
                info_formats = Some (example_formats labels)\<rparr>)"
  by (simp add: example_listing_env_def)

lemma example_listing:
  "fst (get_video_formats (example_listing_env [''1920x1080'', ''720p'', ''unknown'', ''480p''])
      url s) =
     Listing ''ABC123'' (PStr ''A video'')
       [example_kept 0 ''1920x1080'', example_kept 1 ''720p'', example_kept 3 ''480p'',
        example_kept 2 ''unknown'']"
proof -
  have k: "collect_formats []
      (info_candidates \<lparr>info_id = Some ''ABC123'', info_fields = [(''title'', PStr ''A video'')],
         info_formats = Some (example_formats [''1920x1080'', ''720p'', ''unknown'', ''480p''])\<rparr>)
    = [example_kept 0 ''1920x1080'', example_kept 1 ''720p'', example_kept 2 ''unknown'',
       example_kept 3 ''480p'']"
    by (simp add: info_candidates_def example_formats_kept)
  show ?thesis
    by (subst get_video_formats_listing [OF example_extract_info])
      (simp_all add: k example_keys get_default_def)
qed

lemma example_listing_fails:
  "fst (get_video_formats (example_listing_env [''1080x?'', ''720p'', ''unknown'', ''480p''])
      url s) = Failed ''error''"
proof -
  have k: "collect_formats []
      (info_candidates \<lparr>info_id = Some ''ABC123'', info_fields = [(''title'', PStr ''A video'')],
         info_formats = Some (example_formats [''1080x?'', ''720p'', ''unknown'', ''480p''])\<rparr>)
    = [example_kept 0 ''1080x?'', example_kept 1 ''720p'', example_kept 2 ''unknown'',
       example_kept 3 ''480p'']"
    by (simp add: info_candidates_def example_formats_kept)
  have "list_formats (example_listing_env [''1080x?'', ''720p'', ''unknown'', ''480p'']) url
      = Inl ValueError"
    by (simp add: list_formats_def example_extract_info then_do_def k sort_reverse_def
        example_keys)
  then show ?thesis
    by (simp add: get_video_formats_def Let_def example_listing_env_def example_env_def)
qed

lemma example_kept_list:
  assumes "a \<noteq> ''audio only''" "b \<noteq> ''audio only''" "c \<noteq> ''audio only''"
    "d \<noteq> ''audio only''"
  shows "collect_formats []
      (info_candidates \<lparr>info_id = Some ''ABC123'', info_fields = [(''title'', PStr ''A video'')],
         info_formats = Some (example_formats [a, b, c, d])\<rparr>)
    = [example_kept 0 a, example_kept 1 b, example_kept 2 c, example_kept 3 d]"
  using assms by (simp add: info_candidates_def example_formats_kept)

theorem C9_listing_keeps_video_formats_witness:
  "(\<exists>i. extract_info (example_listing_env [''1920x1080'', ''720p'', ''unknown'', ''480p''])
           formats_opts ''https://youtu.be/ABC123'' = Inr (Some i)
        \<and> mset [example_kept 0 ''1920x1080'', example_kept 1 ''720p'', example_kept 3 ''480p'',
             example_kept 2 ''unknown''] =
            mset (map format_info
              (filter (\<lambda>f. get f ''vcodec'' \<noteq> PStr ''none''
                         \<and> get f ''resolution'' \<noteq> PStr ''audio only'')
                 (info_candidates i))))
   \<and> collect_formats []
        [[(''vcodec'', PStr ''none''), (''resolution'', PStr ''audio only'')],
         [(''vcodec'', PStr ''none'')],
         [(''vcodec'', PStr ''vp9''), (''resolution'', PStr ''640x360'')],
         [(''resolution'', PStr ''audio only'')]] =
       [format_info [(''vcodec'', PStr ''vp9''), (''resolution'', PStr ''640x360'')]]"
proof -
  have h: "fst (get_video_formats
      (example_listing_env [''1920x1080'', ''720p'', ''unknown'', ''480p''])
      ''https://youtu.be/ABC123'' empty_state) =
     Listing ''ABC123'' (PStr ''A video'')
       [example_kept 0 ''1920x1080'', example_kept 1 ''720p'', example_kept 3 ''480p'',
        example_kept 2 ''unknown'']"
    by (rule example_listing)
  show ?thesis
    using h
      C9_listing_keeps_video_formats
        [of "[[(''vcodec'', PStr ''none''), (''resolution'', PStr ''audio only'')],
              [(''vcodec'', PStr ''none'')],
              [(''vcodec'', PStr ''vp9''), (''resolution'', PStr ''640x360'')],
              [(''resolution'', PStr ''audio only'')]]"
          "example_listing_env [''1920x1080'', ''720p'', ''unknown'', ''480p'']"
          "''https://youtu.be/ABC123''" empty_state "''ABC123''" "PStr ''A video''"
          "[example_kept 0 ''1920x1080'', example_kept 1 ''720p'', example_kept 3 ''480p'',
            example_kept 2 ''unknown'']"]
    by (simp add: get_def)
qed

lemma decimal_snoc: "decimal (ds @ [c]) = 10 * decimal ds + digit_value c"
  by (simp add: decimal_def)

text \<open>
  C4, as the code has it: the sort key of a format is 0 for the label \<^verbatim>\<open>unknown\<close>, the
  integer \<open>H\<close> for a label \<open>WxH\<close> and the integer \<open>N\<close> for a label \<open>Np\<close> (\<open>W\<close>, \<open>H\<close>
  and \<open>N\<close> strings of decimal digits, of at most 4300 digits). When the engine answers
  and every kept format's label has a key, the listing holds the kept formats, each
  once, by decreasing key, formats of equal keys in the order the engine gave them. For
  the labels \<^verbatim>\<open>1920x1080\<close>, \<^verbatim>\<open>720p\<close>, \<^verbatim>\<open>unknown\<close>, \<^verbatim>\<open>480p\<close> the order produced is
  1080, 720, 480, unknown.
\<close>

theorem C4_formats_ranked_by_height:
  "(map_of x ''resolution'' = Some (PStr ''unknown'') \<longrightarrow> resolution_key x = Inr 0)
   \<and> (map_of x ''resolution'' = Some (PStr (w @ ''x'' @ h)) \<and> digit_string w
        \<and> digit_string h \<and> length h \<le> int_max_str_digits \<longrightarrow>
      resolution_key x = Inr (int (decimal h)))
   \<and> (map_of x ''resolution'' = Some (PStr (n @ ''p'')) \<and> digit_string n
        \<and> length n \<le> int_max_str_digits \<longrightarrow>
      resolution_key x = Inr (int (decimal n)))
   \<and> (extract_info ev formats_opts url = Inr (Some i)
        \<and> (\<forall>f \<in> set (collect_formats [] (info_candidates i)). \<exists>k. resolution_key f = Inr k) \<longrightarrow>
      (\<exists>formats.
         fst (get_video_formats ev url s) =
           Listing (case info_id i of None \<Rightarrow> ''unknown'' | Some v \<Rightarrow> v)
             (get_default (info_fields i) ''title'' (PStr ''Unknown'')) formats
         \<and> mset formats = mset (collect_formats [] (info_candidates i))
         \<and> sorted_wrt (\<lambda>a b. projr (resolution_key b) \<le> projr (resolution_key a)) formats
         \<and> (\<forall>k. filter (\<lambda>f. resolution_key f = Inr k) formats =
                filter (\<lambda>f. resolution_key f = Inr k) (collect_formats [] (info_candidates i)))))
   \<and> fst (get_video_formats
        (example_listing_env [''1920x1080'', ''720p'', ''unknown'', ''480p'']) url s) =
       Listing ''ABC123'' (PStr ''A video'')
         [example_kept 0 ''1920x1080'', example_kept 1 ''720p'', example_kept 3 ''480p'',
          example_kept 2 ''unknown'']"
proof -
  have d: "extract_info ev formats_opts url = Inr (Some i)
        \<and> (\<forall>f \<in> set (collect_formats [] (info_candidates i)). \<exists>k. resolution_key f = Inr k) \<longrightarrow>
      (\<exists>formats.
         fst (get_video_formats ev url s) =
           Listing (case info_id i of None \<Rightarrow> ''unknown'' | Some v \<Rightarrow> v)
             (get_default (info_fields i) ''title'' (PStr ''Unknown'')) formats
         \<and> mset formats = mset (collect_formats [] (info_candidates i))
         \<and> sorted_wrt (\<lambda>a b. projr (resolution_key b) \<le> projr (resolution_key a)) formats
         \<and> (\<forall>k. filter (\<lambda>f. resolution_key f = Inr k) formats =
                filter (\<lambda>f. resolution_key f = Inr k) (collect_formats [] (info_candidates i))))"
  proof
    assume a: "extract_info ev formats_opts url = Inr (Some i)
        \<and> (\<forall>f \<in> set (collect_formats [] (info_candidates i)). \<exists>k. resolution_key f = Inr k)"
    define kept where "kept = collect_formats [] (info_candidates i)"
    define formats where "formats = sort_key (\<lambda>x. - projr (resolution_key x)) kept"
    from a have keys: "\<forall>f \<in> set kept. \<exists>k. resolution_key f = Inr k" by (simp add: kept_def)
    have l: "fst (get_video_formats ev url s) =
           Listing (case info_id i of None \<Rightarrow> ''unknown'' | Some v \<Rightarrow> v)
             (get_default (info_fields i) ''title'' (PStr ''Unknown'')) formats"
      using a get_video_formats_listing [of ev url i s] by (simp add: formats_def kept_def)
    have m: "mset formats = mset kept" by (simp add: formats_def)
    have "sorted (map (\<lambda>x. - projr (resolution_key x)) formats)"
      unfolding formats_def by (rule sorted_sort_key)
    then have so: "sorted_wrt (\<lambda>a b. projr (resolution_key b) \<le> projr (resolution_key a)) formats"
      by (simp add: sorted_wrt_map)
    have st: "filter (\<lambda>f. resolution_key f = Inr k) formats =
        filter (\<lambda>f. resolution_key f = Inr k) kept" for k
    proof -
      have e: "f \<in> set kept \<Longrightarrow>
          (resolution_key f = Inr k) = (- projr (resolution_key f) = - k)" for f
        using keys by auto
      have "filter (\<lambda>f. resolution_key f = Inr k) formats =
          filter (\<lambda>f. - projr (resolution_key f) = - k) formats"
        by (rule filter_cong) (auto simp: formats_def e)
      also have "\<dots> = filter (\<lambda>f. - projr (resolution_key f) = - k) kept"
        unfolding formats_def by (rule sort_key_stable)
      also have "\<dots> = filter (\<lambda>f. resolution_key f = Inr k) kept"
        by (rule filter_cong) (auto simp: e)
      finally show ?thesis .
    qed
    show "\<exists>formats.
         fst (get_video_formats ev url s) =
           Listing (case info_id i of None \<Rightarrow> ''unknown'' | Some v \<Rightarrow> v)
             (get_default (info_fields i) ''title'' (PStr ''Unknown'')) formats
         \<and> mset formats = mset (collect_formats [] (info_candidates i))
         \<and> sorted_wrt (\<lambda>a b. projr (resolution_key b) \<le> projr (resolution_key a)) formats
         \<and> (\<forall>k. filter (\<lambda>f. resolution_key f = Inr k) formats =
                filter (\<lambda>f. resolution_key f = Inr k) (collect_formats [] (info_candidates i)))"
      using l m so st unfolding kept_def by blast
  qed
  show ?thesis
    using resolution_key_unknown [of x] resolution_key_WxH [of x w h]
      resolution_key_Np [of x n] d example_listing [of url s]
    by blast
qed

theorem C4_formats_ranked_by_height_witness:
  "resolution_key (example_kept 2 ''unknown'') = Inr 0
   \<and> resolution_key (example_kept 0 ''1920x1080'') = Inr 1080
   \<and> resolution_key (example_kept 1 ''720p'') = Inr 720
   \<and> (\<exists>formats.
         fst (get_video_formats
           (example_listing_env [''1920x1080'', ''720p'', ''unknown'', ''480p''])
           ''https://youtu.be/ABC123'' empty_state) =
           Listing ''ABC123'' (PStr ''A video'') formats
         \<and> mset formats = mset [example_kept 0 ''1920x1080'', example_kept 1 ''720p'',
              example_kept 2 ''unknown'', example_kept 3 ''480p'']
         \<and> sorted_wrt (\<lambda>a b. projr (resolution_key b) \<le> projr (resolution_key a)) formats)"
proof -
  have u: "map_of (example_kept 2 ''unknown'') ''resolution'' = Some (PStr ''unknown'')"
    by (simp add: example_kept_def)
  have a: "map_of (example_kept 0 ''1920x1080'') ''resolution''
        = Some (PStr (''1920'' @ ''x'' @ ''1080''))
      \<and> digit_string ''1920'' \<and> digit_string ''1080''
      \<and> length ''1080'' \<le> int_max_str_digits"
    by (simp add: example_kept_def digit_string_def is_digit_def int_max_str_digits_def)
  have b: "map_of (example_kept 1 ''720p'') ''resolution'' = Some (PStr (''720'' @ ''p''))
      \<and> digit_string ''720'' \<and> length ''720'' \<le> int_max_str_digits"
    by (simp add: example_kept_def digit_string_def is_digit_def int_max_str_digits_def)
  have v: "int (decimal ''1080'') = 1080" "int (decimal ''720'') = 720"
    by (simp_all add: decimal_def digit_value_def)
  have k: "collect_formats []
      (info_candidates \<lparr>info_id = Some ''ABC123'', info_fields = [(''title'', PStr ''A video'')],
         info_formats = Some (example_formats [''1920x1080'', ''720p'', ''unknown'', ''480p''])\<rparr>)
    = [example_kept 0 ''1920x1080'', example_kept 1 ''720p'', example_kept 2 ''unknown'',
       example_kept 3 ''480p'']"
    by (simp add: example_kept_list)
  have c: "extract_info (example_listing_env [''1920x1080'', ''720p'', ''unknown'', ''480p''])
        formats_opts ''https://youtu.be/ABC123'' =
      Inr (Some \<lparr>info_id = Some ''ABC123'', info_fields = [(''title'', PStr ''A video'')],
         info_formats = Some (example_formats [''1920x1080'', ''720p'', ''unknown'', ''480p''])\<rparr>)
      \<and> (\<forall>f \<in> set (collect_formats []
            (info_candidates \<lparr>info_id = Some ''ABC123'',
               info_fields = [(''title'', PStr ''A video'')],
               info_formats =
                 Some (example_formats [''1920x1080'', ''720p'', ''unknown'', ''480p''])\<rparr>)).
           \<exists>k. resolution_key f = Inr k)"
    by (simp add: example_extract_info k example_keys)
  show ?thesis
    using u a b c
      C4_formats_ranked_by_height [of "example_kept 2 ''unknown''" "''1''" "''1''" "''1''"
        example_env "''u''" _ empty_state]
      C4_formats_ranked_by_height [of "example_kept 0 ''1920x1080''" "''1920''" "''1080''"
        "''1''" example_env "''u''" _ empty_state]
      C4_formats_ranked_by_height [of "example_kept 1 ''720p''" "''1''" "''1''" "''720''"
        "example_listing_env [''1920x1080'', ''720p'', ''unknown'', ''480p'']"
        "''https://youtu.be/ABC123''"
        "\<lparr>info_id = Some ''ABC123'', info_fields = [(''title'', PStr ''A video'')],
          info_formats =
            Some (example_formats [''1920x1080'', ''720p'', ''unknown'', ''480p''])\<rparr>"
        empty_state]
    by (simp add: v k get_default_def example_keys)
qed

text \<open>
  The example of the specification has the label \<^verbatim>\<open>1080x?\<close> (a width of 1080 and no
  height, as the engine writes it): \<^verbatim>\<open>int('?')\<close> raises \<^verbatim>\<open>ValueError\<close>, and the whole
  listing is the error instead of the four formats in any order.
\<close>

theorem C4_spec_example_listing_fails:
  "resolution_key (example_kept 0 ''1080x?'') = Inl ValueError
   \<and> fst (get_video_formats
        (example_listing_env [''1080x?'', ''720p'', ''unknown'', ''480p''])
        ''https://youtu.be/ABC123'' empty_state) = Failed ''error''"
  by (simp add: example_keys example_listing_fails)

end
